theory Spec2Isabelle
  imports Main "HOL-Library.Word"
begin

section \<open>rss2socials: change detection and multi-destination publishing\<close>

text \<open>
  A shallow embedding of the Go packages \<^verbatim>\<open>internal/rss\<close>, \<^verbatim>\<open>internal/db\<close>,
  \<^verbatim>\<open>internal/mastodon\<close>, \<^verbatim>\<open>internal/bluesky\<close>, \<^verbatim>\<open>internal/threads\<close>,
  \<^verbatim>\<open>internal/gotify\<close> and \<^verbatim>\<open>internal/rss2socials\<close>.

  Go strings are byte sequences; they are modelled as \<open>string\<close> (a list of 8-bit
  characters). Every function that touches the outside world (the SQLite table, the
  network, the clock, the logger, the sleeping thread) takes the program state and
  returns it updated. The state holds the rows of the table \<^verbatim>\<open>tooted_posts\<close> and the
  trace of effects performed so far. What the outside world answers is read from a
  \<open>world\<close>: a record of functions indexed by the number of effects performed before
  the call, so that any sequence of answers can be described.
\<close>

subsection \<open>Functions of the Go standard library used by the code\<close>

text \<open>\<^verbatim>\<open>strings.HasPrefix(s, prefix)\<close>: \<^verbatim>\<open>len(s) >= len(prefix) && s[:len(prefix)] == prefix\<close>.\<close>

definition HasPrefix :: "string \<Rightarrow> string \<Rightarrow> bool" where
  "HasPrefix s pre = (length pre \<le> length s \<and> take (length pre) s = pre)"

text \<open>\<^verbatim>\<open>strings.Contains(s, substr)\<close>: \<open>substr\<close> occurs in \<open>s\<close> at some index.\<close>

fun Contains :: "string \<Rightarrow> string \<Rightarrow> bool" where
  "Contains [] substr = (substr = [])"
| "Contains (c # s) substr = (HasPrefix (c # s) substr \<or> Contains s substr)"

text \<open>
  \<^verbatim>\<open>path.Base(path)\<close>: the empty path gives \<^verbatim>\<open>"."\<close>; trailing slashes are removed;
  what follows the last remaining slash is kept; if nothing is left the result is
  \<^verbatim>\<open>"/"\<close>.
\<close>

definition Base :: "string \<Rightarrow> string" where
  "Base path =
     (if path = [] then ''.''
      else
        let stripped = rev (dropWhile (\<lambda>c. c = CHR ''/'') (rev path));
            lastElem = rev (takeWhile (\<lambda>c. c \<noteq> CHR ''/'') (rev stripped))
        in if lastElem = [] then ''/'' else lastElem)"

text \<open>
  \<^verbatim>\<open>fmt.Sprintf("%x", b)\<close> for a byte array: two lower-case hexadecimal digits for
  each byte.
\<close>

definition hexdigit :: "nat \<Rightarrow> char" where
  "hexdigit n = ''0123456789abcdef'' ! (n mod 16)"

fun hex :: "8 word list \<Rightarrow> string" where
  "hex [] = []"
| "hex (b # bs) = hexdigit (unat b div 16) # hexdigit (unat b mod 16) # hex bs"

text \<open>\<^verbatim>\<open>%d\<close> for a number that is not negative.\<close>

function itoa :: "nat \<Rightarrow> string" where
  "itoa n = (if n < 10 then [hexdigit n] else itoa (n div 10) @ [hexdigit (n mod 10)])"
  by pat_completeness auto
termination
  by (relation "measure id") auto

declare itoa.simps [simp del]

subsection \<open>Data model\<close>

text \<open>\<^verbatim>\<open>rss.RSSItem\<close>.\<close>

record RSSItem =
  Title :: string
  Link :: string
  Content :: string

text \<open>\<^verbatim>\<open>config.Config\<close>. Go's \<^verbatim>\<open>int\<close> is taken as 64 bits wide, read as signed.\<close>

record Config =
  MastodonURL :: string
  MastodonAccessToken :: string
  GotifyURL :: string
  GotifyToken :: string
  Debug :: bool
  FeedURL :: string
  Interval :: "64 word"
  Category :: string
  SkipPrefixCategories :: "string list"
  BlueskyHandle :: string
  BlueskyPassword :: string
  BlueskyPDS :: string
  ThreadsUserID :: string
  ThreadsToken :: string

text \<open>
  Go error values, by the way the code builds them: an error of a library returned as
  it is, \<^verbatim>\<open>fmt.Errorf\<close> or \<^verbatim>\<open>errors.New\<close> with a fixed text, \<^verbatim>\<open>fmt.Errorf\<close> wrapping a
  cause after a context (\<^verbatim>\<open>"context: %w"\<close>), \<^verbatim>\<open>fmt.Errorf\<close> with a status code
  after a context (\<^verbatim>\<open>"context %d"\<close>), and \<^verbatim>\<open>fmt.Errorf\<close> with a status line after
  a context (\<^verbatim>\<open>"context %s"\<close>). \<open>errorText\<close> is the method \<^verbatim>\<open>Error()\<close>.
\<close>

datatype error =
    Cause string
  | Message string
  | Wrap string string
  | Status string nat
  | StatusLine string string

fun errorText :: "error \<Rightarrow> string" where
  "errorText (Cause m) = m"
| "errorText (Message m) = m"
| "errorText (Wrap context m) = context @ '': '' @ m"
| "errorText (Status context code) = context @ itoa code"
| "errorText (StatusLine context line) = context @ line"

text \<open>logrus levels; \<^verbatim>\<open>log.Printf\<close> logs at the info level.\<close>

datatype level = DebugLevel | InfoLevel | ErrorLevel | FatalLevel

text \<open>The HTTP endpoints the program talks to.\<close>

datatype endpoint =
    Feed
  | Mastodon
  | BlueskySession
  | BlueskyRecord
  | ThreadsContainer
  | ThreadsPublish
  | Gotify

text \<open>
  The effects of the program, in the order they happen: a log call (level and
  formatted text), an HTTP request handed to \<^verbatim>\<open>net/http\<close> by \<^verbatim>\<open>Client.Get\<close>,
  \<^verbatim>\<open>Client.Do\<close>, \<^verbatim>\<open>http.Post\<close> or \<^verbatim>\<open>http.PostForm\<close> (endpoint, URL, payload), a
  \<^verbatim>\<open>SELECT\<close> on the table by link, an \<^verbatim>\<open>INSERT OR REPLACE\<close> (link, hash, timestamp),
  opening the database, creating the table if it does not exist, and \<^verbatim>\<open>time.Sleep\<close>
  with its duration in nanoseconds. The payload of a request is the text it carries.
\<close>

datatype event =
    Log level string
  | Http endpoint string string
  | DbQuery string
  | DbExec string string string
  | DbOpen
  | DbCreateTable
  | Sleep "64 word"

text \<open>What an HTTP exchange gives: the error of \<^verbatim>\<open>net/http\<close> when there is no
  response, or the status code, the status line (\<^verbatim>\<open>resp.Status\<close>, such as
  \<^verbatim>\<open>"500 Internal Server Error"\<close>), the body, and the error of decoding the body into
  what the caller expects (\<open>None\<close> when it decodes).\<close>

datatype http_result = TransportFailure string | Responded nat string string "string option"

text \<open>What fetching the feed gives: no response, or a status code and what decoding
  the XML body gives, its error or the items.\<close>

datatype feed_result = FeedFailure string | FeedResponded nat "string + RSSItem list"

text \<open>
  The outside world. \<open>sha256\<close> is \<^verbatim>\<open>crypto/sha256.Sum256\<close> and \<open>new_request_error\<close>
  is the error of \<^verbatim>\<open>http.NewRequest\<close> for a URL (\<open>None\<close> when the URL parses), two
  functions of the standard library taken as parameters. The other fields answer the
  call made after
  \<open>n\<close> effects: the clock (\<^verbatim>\<open>time.Now().Format(time.RFC3339)\<close>), the feed, the other
  HTTP exchanges, and whether the storage layer fails (\<open>Some\<close> of its message).
\<close>

record world =
  sha256 :: "string \<Rightarrow> 8 word list"
  new_request_error :: "string \<Rightarrow> string option"
  now :: "nat \<Rightarrow> string"
  feed_http :: "nat \<Rightarrow> string \<Rightarrow> feed_result"
  net :: "nat \<Rightarrow> endpoint \<Rightarrow> string \<Rightarrow> string \<Rightarrow> http_result"
  db_fault :: "nat \<Rightarrow> string option"
  db_open_fault :: "nat \<Rightarrow> string option"

text \<open>The program state: the rows of \<^verbatim>\<open>tooted_posts\<close> (link to content hash and
  timestamp) and the effects so far.\<close>

record state =
  rows :: "string \<rightharpoonup> string \<times> string"
  trace :: "event list"

definition emit :: "event \<Rightarrow> state \<Rightarrow> state" where
  "emit e s = s\<lparr>trace := trace s @ [e]\<rparr>"

definition tick :: "state \<Rightarrow> nat" where
  "tick s = length (trace s)"

definition log :: "level \<Rightarrow> string \<Rightarrow> state \<Rightarrow> state" where
  "log lvl msg s = emit (Log lvl msg) s"

subsection \<open>Package rss\<close>

text \<open>\<^verbatim>\<open>rss.HashContent\<close>.\<close>

definition HashContent :: "world \<Rightarrow> string \<Rightarrow> 8 word list" where
  "HashContent w content = sha256 w content"

text \<open>\<^verbatim>\<open>rss.CheckRSSFeed\<close>.\<close>

definition CheckRSSFeed :: "world \<Rightarrow> string \<Rightarrow> state \<Rightarrow> (error + RSSItem list) \<times> state" where
  "CheckRSSFeed w feedURL s =
     (let s1 = emit (Http Feed feedURL []) s in
      case feed_http w (tick s) feedURL of
        FeedFailure m \<Rightarrow> (Inl (Wrap ''HTTP request failed'' m), s1)
      | FeedResponded code body \<Rightarrow>
          if code \<noteq> 200 then (Inl (Status ''unexpected HTTP status: '' code), s1)
          else (case body of
                  Inl m \<Rightarrow> (Inl (Wrap ''failed to parse RSS feed'' m), s1)
                | Inr items \<Rightarrow> (Inr items, s1)))"

subsection \<open>Package db\<close>

text \<open>\<^verbatim>\<open>db.StoreTootedPost\<close>: a failed statement leaves the table as it was.\<close>

definition StoreTootedPost :: "world \<Rightarrow> string \<Rightarrow> string \<Rightarrow> state \<Rightarrow> error option \<times> state" where
  "StoreTootedPost w link content s =
     (let contentHash = HashContent w content;
          stamp = now w (tick s);
          s1 = emit (DbExec link (hex contentHash) stamp) s
      in case db_fault w (tick s) of
           Some m \<Rightarrow> (Some (Cause m), s1)
         | None \<Rightarrow> (None, s1\<lparr>rows := (rows s1)(link \<mapsto> (hex contentHash, stamp))\<rparr>))"

text \<open>\<^verbatim>\<open>db.HasPostChanged\<close>: the results \<open>exists\<close>, \<open>updated\<close> and \<open>err\<close>.\<close>

definition HasPostChanged :: "world \<Rightarrow> string \<Rightarrow> string \<Rightarrow> state \<Rightarrow> (bool \<times> bool \<times> error option) \<times> state" where
  "HasPostChanged w link content s =
     (let s1 = emit (DbQuery link) s in
      case db_fault w (tick s) of
        Some m \<Rightarrow> ((False, False, Some (Cause m)), s1)
      | None \<Rightarrow>
          (case rows s link of
             None \<Rightarrow> ((False, False, None), s1)
           | Some (storedHash, stamp) \<Rightarrow>
               let newHash = hex (HashContent w content) in
               if storedHash \<noteq> newHash then ((True, True, None), s1)
               else ((True, False, None), s1)))"

text \<open>\<^verbatim>\<open>db.InitDB\<close>: \<open>Inl\<close> when \<^verbatim>\<open>log.Fatal\<close> ends the process.\<close>

definition InitDB :: "world \<Rightarrow> state \<Rightarrow> state + state" where
  "InitDB w s =
     (let s1 = emit DbOpen s in
      case db_open_fault w (tick s) of
        Some m \<Rightarrow> Inl (log FatalLevel (''Failed to open database:'' @ m) s1)
      | None \<Rightarrow>
          (let s2 = emit DbCreateTable s1 in
           case db_fault w (tick s1) of
             Some m \<Rightarrow> Inl (log FatalLevel (''Failed to create table:'' @ m) s2)
           | None \<Rightarrow> Inr s2))"

subsection \<open>Package mastodon\<close>

text \<open>\<^verbatim>\<open>mastodon.GetTootContent\<close>: the loop returns at the first category that is a
  prefix of the title.\<close>

fun GetTootContent :: "RSSItem \<Rightarrow> string list \<Rightarrow> string" where
  "GetTootContent post [] = ''New blog post: '' @ Link post"
| "GetTootContent post (cat # cats) =
     (if HasPrefix (Title post) cat then Content post @ '' - '' @ Link post
      else GetTootContent post cats)"

text \<open>\<^verbatim>\<open>mastodon.TootPost\<close>: when \<^verbatim>\<open>http.NewRequest\<close> fails, the error is returned
  before any request is made.\<close>

definition TootPost :: "world \<Rightarrow> string \<Rightarrow> string \<Rightarrow> string \<Rightarrow> state \<Rightarrow> error option \<times> state" where
  "TootPost w mastodonURL mastodonToken content s =
     (if mastodonURL = [] \<or> mastodonToken = []
      then (Some (Message ''mastodon URL and token must be set''), s)
      else
        let url = mastodonURL @ ''/api/v1/statuses'' in
        case new_request_error w url of
          Some m \<Rightarrow> (Some (Cause m), s)
        | None \<Rightarrow>
            let s1 = emit (Http Mastodon url (''status='' @ content)) s
            in case net w (tick s) Mastodon url (''status='' @ content) of
                 TransportFailure m \<Rightarrow> (Some (Cause m), s1)
               | Responded code line body decodes \<Rightarrow>
                   if code \<noteq> 200 then (Some (Status ''unexpected HTTP status: '' code), s1)
                   else (None, s1))"

subsection \<open>Package bluesky\<close>

text \<open>\<^verbatim>\<open>bluesky.Post\<close>: a session is created with \<^verbatim>\<open>http.Post\<close>, then the record
  with \<^verbatim>\<open>http.NewRequest\<close> and \<^verbatim>\<open>Client.Do\<close>.\<close>

definition bluesky_Post :: "world \<Rightarrow> string \<Rightarrow> string \<Rightarrow> string \<Rightarrow> string \<Rightarrow> state \<Rightarrow> error option \<times> state" where
  "bluesky_Post w handle password pds content s =
     (if handle = [] \<or> password = []
      then (Some (Message ''bluesky handle and password are required''), s)
      else
        let sessionURL = pds @ ''/xrpc/com.atproto.server.createSession'';
            s1 = emit (Http BlueskySession sessionURL handle) s
        in case net w (tick s) BlueskySession sessionURL handle of
             TransportFailure m \<Rightarrow> (Some (Wrap ''failed to create session'' m), s1)
           | Responded code line body decodes \<Rightarrow>
               if code \<noteq> 200
               then (Some (Status ''failed to create session: status code '' code), s1)
               else
                 (case decodes of
                    Some m \<Rightarrow> (Some (Wrap ''failed to decode session response'' m), s1)
                  | None \<Rightarrow>
                      let recordURL = pds @ ''/xrpc/com.atproto.repo.createRecord'' in
                      (case new_request_error w recordURL of
                         Some m \<Rightarrow> (Some (Wrap ''failed to create request'' m), s1)
                       | None \<Rightarrow>
                           let s2 = emit (Http BlueskyRecord recordURL content) s1
                           in case net w (tick s1) BlueskyRecord recordURL content of
                                TransportFailure m \<Rightarrow> (Some (Wrap ''failed to create record'' m), s2)
                              | Responded code2 line2 body2 decodes2 \<Rightarrow>
                                  if code2 \<noteq> 200
                                  then (Some (Status ''failed to create record: status code '' code2),
                                        log ErrorLevel (''Bluesky API error: '' @ body2) s2)
                                  else (None, s2))))"

subsection \<open>Package threads\<close>

text \<open>\<^verbatim>\<open>threads.Post\<close>: a media container is created, then published.\<close>

definition threads_Post :: "world \<Rightarrow> string \<Rightarrow> string \<Rightarrow> string \<Rightarrow> state \<Rightarrow> error option \<times> state" where
  "threads_Post w userID token content s =
     (if userID = [] \<or> token = []
      then (Some (Message ''threads user ID and token are required''), s)
      else
        let containerURL = ''https://graph.threads.net/v1.0'' @ ''/'' @ userID @ ''/threads'';
            s1 = emit (Http ThreadsContainer containerURL content) s
        in case net w (tick s) ThreadsContainer containerURL content of
             TransportFailure m \<Rightarrow> (Some (Wrap ''failed to create threads container'' m), s1)
           | Responded code line body decodes \<Rightarrow>
               if code \<noteq> 200
               then (Some (Status ''failed to create threads container: status code '' code),
                     log ErrorLevel (''Threads Create Container Error: '' @ body) s1)
               else
                 (case decodes of
                    Some m \<Rightarrow> (Some (Wrap ''failed to decode container response'' m), s1)
                  | None \<Rightarrow>
                      let publishURL = ''https://graph.threads.net/v1.0'' @ ''/'' @ userID
                                         @ ''/threads_publish'';
                          s2 = emit (Http ThreadsPublish publishURL []) s1
                      in case net w (tick s1) ThreadsPublish publishURL [] of
                           TransportFailure m \<Rightarrow>
                             (Some (Wrap ''failed to publish threads container'' m), s2)
                         | Responded code2 line2 body2 decodes2 \<Rightarrow>
                             if code2 \<noteq> 200
                             then (Some (Status ''failed to publish threads container: status code '' code2),
                                   log ErrorLevel (''Threads Publish Error: '' @ body2) s2)
                             else (None, s2)))"

subsection \<open>Package gotify\<close>

text \<open>\<^verbatim>\<open>gotify.sendGotifyNotification\<close>.\<close>

definition sendGotifyNotification :: "world \<Rightarrow> Config \<Rightarrow> string \<Rightarrow> string \<Rightarrow> state \<Rightarrow> error option \<times> state" where
  "sendGotifyNotification w conf title message s =
     (if GotifyURL conf = [] \<or> GotifyToken conf = []
      then (Some (Message ''gotify URL or token is not configured''), s)
      else
        let url = GotifyURL conf @ ''/message?token='' @ GotifyToken conf in
        case new_request_error w url of
          Some m \<Rightarrow> (Some (Wrap ''failed to create Gotify request'' m), s)
        | None \<Rightarrow>
            let s1 = emit (Http Gotify url (title @ '': '' @ message)) s
            in case net w (tick s) Gotify url (title @ '': '' @ message) of
                 TransportFailure m \<Rightarrow> (Some (Wrap ''failed to send Gotify request'' m), s1)
               | Responded code line body decodes \<Rightarrow>
                   if code \<noteq> 200
                   then (Some (StatusLine ''gotify returned non-OK status: '' line), s1)
                   else (None, s1))"

text \<open>\<^verbatim>\<open>gotify.logFailure\<close>: the error is logged and, when Gotify is configured, sent
  as a notification; a notification that fails is only logged.\<close>

definition logFailure :: "world \<Rightarrow> string \<Rightarrow> error \<Rightarrow> Config \<Rightarrow> state \<Rightarrow> state" where
  "logFailure w message err conf s =
     (let s1 = log InfoLevel (message @ '': '' @ errorText err) s in
      if GotifyURL conf \<noteq> [] \<and> GotifyToken conf \<noteq> [] then
        (case sendGotifyNotification w conf message (errorText err) s1 of
           (Some e, s2) \<Rightarrow> log InfoLevel (''Error sending Gotify notification: '' @ errorText e) s2
         | (None, s2) \<Rightarrow> s2)
      else s1)"

subsection \<open>Package rss2socials\<close>

text \<open>
  \<^verbatim>\<open>handlePost\<close> is written in four parts, in the order of the source: the two blocks
  that post to Bluesky and to Threads, the part from the call of \<^verbatim>\<open>db.StoreTootedPost\<close>
  on (reached after a successful toot), the part from the call of
  \<^verbatim>\<open>mastodon.TootPost\<close> on, and the function itself.
\<close>

definition postBluesky :: "world \<Rightarrow> RSSItem \<Rightarrow> Config \<Rightarrow> string \<Rightarrow> state \<Rightarrow> state" where
  "postBluesky w post conf tootContent s =
     (if BlueskyHandle conf \<noteq> [] \<and> BlueskyPassword conf \<noteq> [] then
        (case bluesky_Post w (BlueskyHandle conf) (BlueskyPassword conf) (BlueskyPDS conf) tootContent
                (log InfoLevel (''Posting to Bluesky: '' @ Title post) s) of
           (Some e, s1) \<Rightarrow> log ErrorLevel (''Failed to post to Bluesky: '' @ errorText e) s1
         | (None, s1) \<Rightarrow> log InfoLevel ''Successfully posted to Bluesky'' s1)
      else s)"

definition postThreads :: "world \<Rightarrow> RSSItem \<Rightarrow> Config \<Rightarrow> string \<Rightarrow> state \<Rightarrow> state" where
  "postThreads w post conf tootContent s =
     (if ThreadsUserID conf \<noteq> [] \<and> ThreadsToken conf \<noteq> [] then
        (case threads_Post w (ThreadsUserID conf) (ThreadsToken conf) tootContent
                (log InfoLevel (''Posting to Threads: '' @ Title post) s) of
           (Some e, s1) \<Rightarrow> log ErrorLevel (''Failed to post to Threads: '' @ errorText e) s1
         | (None, s1) \<Rightarrow> log InfoLevel ''Successfully posted to Threads'' s1)
      else s)"

definition handlePost_store :: "world \<Rightarrow> RSSItem \<Rightarrow> Config \<Rightarrow> string \<Rightarrow> state \<Rightarrow> state" where
  "handlePost_store w post conf tootContent s =
     (let s2 = (case StoreTootedPost w (Link post) (Content post) s of
                  (Some e, s1) \<Rightarrow> log ErrorLevel (''Storing post toot in database failed: '' @ errorText e) s1
                | (None, s1) \<Rightarrow> s1)
      in postThreads w post conf tootContent (postBluesky w post conf tootContent s2))"

definition handlePost_toot :: "world \<Rightarrow> RSSItem \<Rightarrow> Config \<Rightarrow> string \<Rightarrow> bool \<Rightarrow> state \<Rightarrow> state" where
  "handlePost_toot w post conf tootContent isUpdate s =
     (case TootPost w (MastodonURL conf) (MastodonAccessToken conf) tootContent s of
        (Some e, s1) \<Rightarrow>
          if isUpdate then log ErrorLevel (''Failed to toot updated post: '' @ errorText e) s1
          else log InfoLevel (''Failed to toot new post: '' @ errorText e) s1
      | (None, s1) \<Rightarrow> handlePost_store w post conf tootContent s1)"

definition handlePost :: "world \<Rightarrow> RSSItem \<Rightarrow> Config \<Rightarrow> state \<Rightarrow> state" where
  "handlePost w post conf s =
     (case HasPostChanged w (Link post) (Content post) s of
        ((exists, updated, Some e), s1) \<Rightarrow> log ErrorLevel (''Database error: '' @ errorText e) s1
      | ((exists, updated, None), s1) \<Rightarrow>
          if exists \<and> updated then
            handlePost_toot w post conf (''Blog post has been updated: '' @ Link post) True
              (log InfoLevel (''Post has been updated: '' @ Title post) s1)
          else if \<not> exists then
            handlePost_toot w post conf (GetTootContent post (SkipPrefixCategories conf)) False s1
          else s1)"

text \<open>The body of the loop over the fetched posts: the category filter, then
  \<^verbatim>\<open>handlePost\<close>.\<close>

definition skipMessage :: "RSSItem \<Rightarrow> Config \<Rightarrow> string" where
  "skipMessage post conf =
     ''Skipping post '' @ Title post @ '': category filter '' @ [CHR 0x27] @ Category conf
       @ [CHR 0x27] @ '' not in URL segment '' @ [CHR 0x27] @ Base (Link post) @ [CHR 0x27]"

definition processPost :: "world \<Rightarrow> Config \<Rightarrow> state \<Rightarrow> RSSItem \<Rightarrow> state" where
  "processPost w conf s post =
     (if Category conf \<noteq> [] then
        (let lastSegment = Base (Link post) in
         if \<not> Contains lastSegment (Category conf)
         then log DebugLevel (skipMessage post conf) s
         else handlePost w post conf s)
      else handlePost w post conf s)"

fun processPosts :: "world \<Rightarrow> Config \<Rightarrow> state \<Rightarrow> RSSItem list \<Rightarrow> state" where
  "processPosts w conf s [] = s"
| "processPosts w conf s (post # posts) = processPosts w conf (processPost w conf s post) posts"

text \<open>\<^verbatim>\<open>time.Minute\<close> in nanoseconds, and the argument of \<^verbatim>\<open>time.Sleep\<close>:
  \<^verbatim>\<open>time.Duration(conf.Interval) * time.Minute\<close>, a 64-bit product.\<close>

definition Minute :: "64 word" where
  "Minute = 60000000000"

definition sleepDuration :: "Config \<Rightarrow> 64 word" where
  "sleepDuration conf = Interval conf * Minute"

text \<open>One pass through the body of the endless loop of \<^verbatim>\<open>Run\<close>. After a failed
  fetch, \<^verbatim>\<open>continue\<close> starts the next pass at once.\<close>

definition runIteration :: "world \<Rightarrow> Config \<Rightarrow> state \<Rightarrow> state" where
  "runIteration w conf s =
     (case CheckRSSFeed w (FeedURL conf) s of
        (Inl e, s1) \<Rightarrow> log InfoLevel (''Error fetching RSS feed: '' @ errorText e) s1
      | (Inr posts, s1) \<Rightarrow> emit (Sleep (sleepDuration conf)) (processPosts w conf s1 posts))"

text \<open>The loop of \<^verbatim>\<open>Run\<close>, observed for a number of passes.\<close>

fun runLoop :: "world \<Rightarrow> Config \<Rightarrow> nat \<Rightarrow> state \<Rightarrow> state" where
  "runLoop w conf 0 s = s"
| "runLoop w conf (Suc n) s = runLoop w conf n (runIteration w conf s)"

text \<open>The start of \<^verbatim>\<open>Run\<close>: the checks of the feed URL and of the interval.\<close>

definition checkInterval :: "Config \<Rightarrow> state \<Rightarrow> Config \<times> state" where
  "checkInterval conf s =
     (if sint (Interval conf) \<le> 0
      then (conf\<lparr>Interval := 60\<rparr>, log ErrorLevel ''Interval must be a positive integer'' s)
      else (conf, s))"

text \<open>\<^verbatim>\<open>Run\<close>, observed for \<open>n\<close> passes of its loop. The deferred \<^verbatim>\<open>db.CloseDB\<close>
  is never reached: the loop has no exit and \<^verbatim>\<open>log.Fatal\<close> ends the process.\<close>

definition Run :: "world \<Rightarrow> nat \<Rightarrow> Config \<Rightarrow> state \<Rightarrow> state" where
  "Run w n conf s =
     (if FeedURL conf = [] then log FatalLevel ''RSS feed URL is required'' s
      else
        (case checkInterval conf s of
           (conf1, s1) \<Rightarrow>
             (case InitDB w s1 of
                Inl s2 \<Rightarrow> s2
              | Inr s2 \<Rightarrow> runLoop w conf1 n s2)))"

subsection \<open>Observing the trace\<close>

text \<open>The kind of an effect, to say which effects a part of the program performs.\<close>

datatype kind = KLog | KHttp endpoint | KQuery | KExec | KOpen | KSleep

fun kindOf :: "event \<Rightarrow> kind" where
  "kindOf (Log l m) = KLog"
| "kindOf (Http ep url payload) = KHttp ep"
| "kindOf (DbQuery link) = KQuery"
| "kindOf (DbExec link h stamp) = KExec"
| "kindOf DbOpen = KOpen"
| "kindOf DbCreateTable = KOpen"
| "kindOf (Sleep d) = KSleep"

subsection \<open>The formatting rules in the words of the specification\<close>

text \<open>
  The contract \<^verbatim>\<open>format(item, skipPrefixCategories, isUpdate)\<close> of the specification:
  an update gives the update announcement with the link; otherwise a title that starts
  with one of the categories gives \<^verbatim>\<open>"{content} - {link}"\<close>; otherwise the result
  is \<^verbatim>\<open>"New blog post: {link}"\<close>. It is compared below with what the code publishes.
\<close>

definition format_spec :: "RSSItem \<Rightarrow> string list \<Rightarrow> bool \<Rightarrow> string" where
  "format_spec item skipPrefixCategories isUpdate =
     (if isUpdate then ''Blog post has been updated: '' @ Link item
      else if (\<exists>cat \<in> set skipPrefixCategories. HasPrefix (Title item) cat)
           then Content item @ '' - '' @ Link item
      else ''New blog post: '' @ Link item)"

subsection \<open>Concrete inputs\<close>

text \<open>
  Inputs on which the theorems below are instantiated. In these worlds the digest is a
  stand-in for SHA-256 (the bytes of the content themselves): the theorems hold for any
  digest function, and the instances only need one that can be evaluated. Every URL of
  these inputs parses.
\<close>

definition digestStandIn :: "string \<Rightarrow> 8 word list" where
  "digestStandIn content = map (\<lambda>c. of_nat (of_char c)) content"

text \<open>A world in which every request is answered with status 200 and the storage
  layer never fails.\<close>

definition worldOK :: world where
  "worldOK = \<lparr>sha256 = digestStandIn,
              new_request_error = (\<lambda>url. None),
              now = (\<lambda>n. ''2026-01-01T00:00:00Z''),
              feed_http = (\<lambda>n url. FeedResponded 200 (Inr [])),
              net = (\<lambda>n ep url payload. Responded 200 ''200 OK'' [] None),
              db_fault = (\<lambda>n. None),
              db_open_fault = (\<lambda>n. None)\<rparr>"

text \<open>The empty table, before any effect.\<close>

definition state0 :: state where
  "state0 = \<lparr>rows = Map.empty, trace = []\<rparr>"

definition post0 :: RSSItem where
  "post0 = \<lparr>Title = ''Thoughts on X'', Link = ''L'', Content = ''body''\<rparr>"

definition conf0 :: Config where
  "conf0 = \<lparr>MastodonURL = ''https://m.example'', MastodonAccessToken = ''token'',
            GotifyURL = ''https://g.example'', GotifyToken = ''gtoken'', Debug = False,
            FeedURL = ''https://x.com/feed'', Interval = 60, Category = [],
            SkipPrefixCategories = [''Thoughts''],
            BlueskyHandle = ''me.bsky.social'', BlueskyPassword = ''pw'',
            BlueskyPDS = ''https://bsky.social'',
            ThreadsUserID = ''42'', ThreadsToken = ''tt''\<rparr>"

text \<open>Worlds in which one collaborator fails: Mastodon answers 500; the storage layer
  fails at the third effect (the upsert of a new item, after the lookup and the toot);
  the storage layer fails at the first effect (the lookup); the feed cannot be reached;
  Bluesky refuses the session.\<close>

definition worldTootDown :: world where
  "worldTootDown = worldOK\<lparr>net := (\<lambda>n ep url payload.
      if ep = Mastodon then Responded 500 ''500 Internal Server Error'' [] None
      else Responded 200 ''200 OK'' [] None)\<rparr>"

definition worldStoreFails :: world where
  "worldStoreFails = worldOK\<lparr>db_fault := (\<lambda>n. if n = 2 then Some ''database is locked'' else None)\<rparr>"

definition worldQueryFails :: world where
  "worldQueryFails = worldOK\<lparr>db_fault := (\<lambda>n. if n = 0 then Some ''database is locked'' else None)\<rparr>"

definition worldFeedDown :: world where
  "worldFeedDown = worldOK\<lparr>feed_http := (\<lambda>n url. FeedFailure ''connection refused'')\<rparr>"

definition worldBlueskyDown :: world where
  "worldBlueskyDown = worldOK\<lparr>net := (\<lambda>n ep url payload.
      if ep = BlueskySession then Responded 401 ''401 Unauthorized'' [] None
      else Responded 200 ''200 OK'' [] None)\<rparr>"

text \<open>A world whose feed answers with the given items, two more items, and a
  configuration with the category \<^verbatim>\<open>"tech"\<close> and no secondary destination.\<close>

definition withFeed :: "world \<Rightarrow> RSSItem list \<Rightarrow> world" where
  "withFeed w items = w\<lparr>feed_http := (\<lambda>n url. FeedResponded 200 (Inr items))\<rparr>"

definition post1 :: RSSItem where
  "post1 = \<lparr>Title = ''Second'', Link = ''M'', Content = ''more''\<rparr>"

definition postTech :: RSSItem where
  "postTech = \<lparr>Title = ''T'', Link = ''https://x.com/a/tech-post'', Content = ''c''\<rparr>"

definition postOther :: RSSItem where
  "postOther = \<lparr>Title = ''O'', Link = ''https://x.com/a/other-post'', Content = ''c''\<rparr>"

definition confTech :: Config where
  "confTech = conf0\<lparr>Category := ''tech'', BlueskyHandle := [], ThreadsUserID := []\<rparr>"

section \<open>Properties\<close>

subsection \<open>The state and the hexadecimal digest\<close>

lemma trace_emit [simp]: "trace (emit e s) = trace s @ [e]"
  by (simp add: emit_def)

lemma rows_emit [simp]: "rows (emit e s) = rows s"
  by (simp add: emit_def)

lemma trace_log [simp]: "trace (log l m s) = trace s @ [Log l m]"
  by (simp add: log_def)

lemma rows_log [simp]: "rows (log l m s) = rows s"
  by (simp add: log_def)

lemma tick_emit [simp]: "tick (emit e s) = Suc (tick s)"
  by (simp add: tick_def)

lemma tick_log [simp]: "tick (log l m s) = Suc (tick s)"
  by (simp add: tick_def)

lemma hexdigit_inj:
  assumes "a < 16" "b < 16" "hexdigit a = hexdigit b"
  shows "a = b"
proof -
  have d: "distinct ''0123456789abcdef''" by simp
  have l: "length ''0123456789abcdef'' = 16" by simp
  from assms have "''0123456789abcdef'' ! a = ''0123456789abcdef'' ! b"
    by (simp add: hexdigit_def)
  with d l assms(1,2) show ?thesis
    by (metis nth_eq_iff_index_eq)
qed

lemma hex_byte_inj:
  fixes b c :: "8 word"
  assumes "hexdigit (unat b div 16) = hexdigit (unat c div 16)"
    and "hexdigit (unat b mod 16) = hexdigit (unat c mod 16)"
  shows "b = c"
proof -
  have bb: "unat b < 256" and cc: "unat c < 256"
    using unsigned_less [of b] unsigned_less [of c] by simp_all
  then have "unat b div 16 < 16" "unat c div 16 < 16" by simp_all
  with assms(1) have hi: "unat b div 16 = unat c div 16" by (simp add: hexdigit_inj)
  have "unat b mod 16 < 16" "unat c mod 16 < 16" by simp_all
  with assms(2) have lo: "unat b mod 16 = unat c mod 16" by (simp add: hexdigit_inj)
  have "unat b = unat c"
    using hi lo by (metis mult_div_mod_eq)
  then show ?thesis by (simp add: word_unat_eq_iff)
qed

lemma hex_inj: "hex bs = hex cs \<Longrightarrow> bs = cs"
proof (induction bs arbitrary: cs)
  case Nil
  then show ?case by (cases cs) simp_all
next
  case (Cons b bs)
  then show ?case by (cases cs) (auto dest: hex_byte_inj)
qed

subsection \<open>The store and the publishers\<close>

lemma HasPostChanged_snd: "snd (HasPostChanged w link content s) = emit (DbQuery link) s"
  by (simp add: HasPostChanged_def Let_def split: option.splits prod.splits)

lemma HasPostChanged_fst:
  "fst (HasPostChanged w link content s) =
     (case db_fault w (tick s) of
        Some m \<Rightarrow> (False, False, Some (Cause m))
      | None \<Rightarrow>
          (case rows s link of
             None \<Rightarrow> (False, False, None)
           | Some r \<Rightarrow> (True, fst r \<noteq> hex (HashContent w content), None)))"
  by (simp add: HasPostChanged_def Let_def split: option.splits prod.splits)

lemma StoreTootedPost_fst:
  "fst (StoreTootedPost w link content s) = map_option Cause (db_fault w (tick s))"
  by (simp add: StoreTootedPost_def Let_def split: option.splits)

lemma StoreTootedPost_trace:
  "trace (snd (StoreTootedPost w link content s)) =
     trace s @ [DbExec link (hex (HashContent w content)) (now w (tick s))]"
  by (simp add: StoreTootedPost_def Let_def split: option.splits)

lemma StoreTootedPost_rows:
  "rows (snd (StoreTootedPost w link content s)) =
     (case db_fault w (tick s) of
        Some m \<Rightarrow> rows s
      | None \<Rightarrow> (rows s)(link \<mapsto> (hex (HashContent w content), now w (tick s))))"
  by (simp add: StoreTootedPost_def Let_def split: option.splits)

lemma TootPost_rows: "rows (snd (TootPost w url token content s)) = rows s"
  by (simp add: TootPost_def Let_def split: http_result.splits option.splits)

lemma TootPost_trace:
  "trace (snd (TootPost w url token content s)) =
     trace s @ (if url = [] \<or> token = [] \<or> new_request_error w (url @ ''/api/v1/statuses'') \<noteq> None
                then []
                else [Http Mastodon (url @ ''/api/v1/statuses'') (''status='' @ content)])"
  by (simp add: TootPost_def Let_def split: http_result.splits option.splits)

lemma TootPost_success:
  assumes "fst (TootPost w url token content s) = None"
  shows "snd (TootPost w url token content s) =
           emit (Http Mastodon (url @ ''/api/v1/statuses'') (''status='' @ content)) s"
  using assms
  by (simp add: TootPost_def Let_def split: http_result.splits option.splits if_splits)

lemma bluesky_Post_rows: "rows (snd (bluesky_Post w handle password pds content s)) = rows s"
  by (simp add: bluesky_Post_def Let_def split: http_result.splits option.splits)

lemma bluesky_Post_trace:
  "\<exists>es. trace (snd (bluesky_Post w handle password pds content s)) = trace s @ es
     \<and> (handle \<noteq> [] \<and> password \<noteq> [] \<longrightarrow>
          take 1 es = [Http BlueskySession (pds @ ''/xrpc/com.atproto.server.createSession'') handle])
     \<and> kindOf ` set es \<subseteq> {KLog, KHttp BlueskySession, KHttp BlueskyRecord}"
  by (simp add: bluesky_Post_def Let_def split: http_result.splits option.splits)

lemma threads_Post_rows: "rows (snd (threads_Post w userID token content s)) = rows s"
  by (simp add: threads_Post_def Let_def split: http_result.splits option.splits)

lemma threads_Post_trace:
  "\<exists>es. trace (snd (threads_Post w userID token content s)) = trace s @ es
     \<and> (userID \<noteq> [] \<and> token \<noteq> [] \<longrightarrow>
          take 1 es = [Http ThreadsContainer
                        (''https://graph.threads.net/v1.0'' @ ''/'' @ userID @ ''/threads'') content])
     \<and> kindOf ` set es \<subseteq> {KLog, KHttp ThreadsContainer, KHttp ThreadsPublish}"
  by (simp add: threads_Post_def Let_def split: http_result.splits option.splits)

subsection \<open>The parts of handlePost\<close>

lemma postBluesky_rows: "rows (postBluesky w post conf tootContent s) = rows s"
proof -
  have "rows (snd (bluesky_Post w (BlueskyHandle conf) (BlueskyPassword conf) (BlueskyPDS conf)
          tootContent (log InfoLevel (''Posting to Bluesky: '' @ Title post) s))) = rows s"
    by (simp add: bluesky_Post_rows)
  then show ?thesis
    by (auto simp: postBluesky_def split: prod.splits option.splits)
qed

lemma postBluesky_trace:
  "\<exists>es. trace (postBluesky w post conf tootContent s) = trace s @ es
     \<and> (if BlueskyHandle conf \<noteq> [] \<and> BlueskyPassword conf \<noteq> []
        then take 2 es = [Log InfoLevel (''Posting to Bluesky: '' @ Title post),
                          Http BlueskySession (BlueskyPDS conf @ ''/xrpc/com.atproto.server.createSession'')
                            (BlueskyHandle conf)]
        else es = [])
     \<and> kindOf ` set es \<subseteq> {KLog, KHttp BlueskySession, KHttp BlueskyRecord}"
proof (cases "BlueskyHandle conf \<noteq> [] \<and> BlueskyPassword conf \<noteq> []")
  case False
  then show ?thesis by (auto simp: postBluesky_def)
next
  case True
  let ?s0 = "log InfoLevel (''Posting to Bluesky: '' @ Title post) s"
  let ?r = "bluesky_Post w (BlueskyHandle conf) (BlueskyPassword conf) (BlueskyPDS conf) tootContent ?s0"
  from bluesky_Post_trace [of w "BlueskyHandle conf" "BlueskyPassword conf" "BlueskyPDS conf" tootContent ?s0]
  obtain es where es: "trace (snd ?r) = trace ?s0 @ es"
    and first: "take 1 es = [Http BlueskySession (BlueskyPDS conf @ ''/xrpc/com.atproto.server.createSession'') (BlueskyHandle conf)]"
    and foot: "kindOf ` set es \<subseteq> {KLog, KHttp BlueskySession, KHttp BlueskyRecord}"
    using True by blast
  from first obtain es' where es': "es = Http BlueskySession (BlueskyPDS conf @ ''/xrpc/com.atproto.server.createSession'') (BlueskyHandle conf) # es'"
    by (cases es) auto
  obtain e where "trace (postBluesky w post conf tootContent s) = trace (snd ?r) @ [Log (fst e) (snd e)]"
    using True by (cases ?r; cases "fst ?r") (auto simp: postBluesky_def)
  then have "trace (postBluesky w post conf tootContent s)
      = trace s @ (Log InfoLevel (''Posting to Bluesky: '' @ Title post) # es @ [Log (fst e) (snd e)])"
    using es by simp
  moreover have "kindOf ` set (Log InfoLevel (''Posting to Bluesky: '' @ Title post) # es @ [Log (fst e) (snd e)])
      \<subseteq> {KLog, KHttp BlueskySession, KHttp BlueskyRecord}"
    using foot by auto
  moreover have "take 2 (Log InfoLevel (''Posting to Bluesky: '' @ Title post) # es @ [Log (fst e) (snd e)])
      = [Log InfoLevel (''Posting to Bluesky: '' @ Title post),
         Http BlueskySession (BlueskyPDS conf @ ''/xrpc/com.atproto.server.createSession'') (BlueskyHandle conf)]"
    using es' by simp
  ultimately show ?thesis using True by metis
qed

lemma postBluesky_last:
  assumes "BlueskyHandle conf \<noteq> [] \<and> BlueskyPassword conf \<noteq> []"
    and "fst (bluesky_Post w (BlueskyHandle conf) (BlueskyPassword conf) (BlueskyPDS conf) tootContent
            (log InfoLevel (''Posting to Bluesky: '' @ Title post) s)) = Some e"
  shows "last (trace (postBluesky w post conf tootContent s)) =
           Log ErrorLevel (''Failed to post to Bluesky: '' @ errorText e)"
  using assms
  by (cases "bluesky_Post w (BlueskyHandle conf) (BlueskyPassword conf) (BlueskyPDS conf) tootContent
            (log InfoLevel (''Posting to Bluesky: '' @ Title post) s)")
     (simp add: postBluesky_def)

lemma postThreads_rows: "rows (postThreads w post conf tootContent s) = rows s"
proof -
  have "rows (snd (threads_Post w (ThreadsUserID conf) (ThreadsToken conf)
          tootContent (log InfoLevel (''Posting to Threads: '' @ Title post) s))) = rows s"
    by (simp add: threads_Post_rows)
  then show ?thesis
    by (auto simp: postThreads_def split: prod.splits option.splits)
qed

lemma postThreads_trace:
  "\<exists>es. trace (postThreads w post conf tootContent s) = trace s @ es
     \<and> (if ThreadsUserID conf \<noteq> [] \<and> ThreadsToken conf \<noteq> []
        then take 2 es = [Log InfoLevel (''Posting to Threads: '' @ Title post),
                          Http ThreadsContainer
                            (''https://graph.threads.net/v1.0'' @ ''/'' @ ThreadsUserID conf @ ''/threads'')
                            tootContent]
        else es = [])
     \<and> kindOf ` set es \<subseteq> {KLog, KHttp ThreadsContainer, KHttp ThreadsPublish}"
proof (cases "ThreadsUserID conf \<noteq> [] \<and> ThreadsToken conf \<noteq> []")
  case False
  then show ?thesis by (auto simp: postThreads_def)
next
  case True
  let ?s0 = "log InfoLevel (''Posting to Threads: '' @ Title post) s"
  let ?r = "threads_Post w (ThreadsUserID conf) (ThreadsToken conf) tootContent ?s0"
  let ?h = "Http ThreadsContainer
              (''https://graph.threads.net/v1.0'' @ ''/'' @ ThreadsUserID conf @ ''/threads'') tootContent"
  from threads_Post_trace [of w "ThreadsUserID conf" "ThreadsToken conf" tootContent ?s0]
  obtain es where es: "trace (snd ?r) = trace ?s0 @ es"
    and first: "take 1 es = [?h]"
    and foot: "kindOf ` set es \<subseteq> {KLog, KHttp ThreadsContainer, KHttp ThreadsPublish}"
    using True by blast
  from first obtain es' where es': "es = ?h # es'"
    by (cases es) auto
  obtain e where "trace (postThreads w post conf tootContent s) = trace (snd ?r) @ [Log (fst e) (snd e)]"
    using True by (cases ?r; cases "fst ?r") (auto simp: postThreads_def)
  then have "trace (postThreads w post conf tootContent s)
      = trace s @ (Log InfoLevel (''Posting to Threads: '' @ Title post) # es @ [Log (fst e) (snd e)])"
    using es by simp
  moreover have "kindOf ` set (Log InfoLevel (''Posting to Threads: '' @ Title post) # es @ [Log (fst e) (snd e)])
      \<subseteq> {KLog, KHttp ThreadsContainer, KHttp ThreadsPublish}"
    using foot by auto
  moreover have "take 2 (Log InfoLevel (''Posting to Threads: '' @ Title post) # es @ [Log (fst e) (snd e)])
      = [Log InfoLevel (''Posting to Threads: '' @ Title post), ?h]"
    using es' by simp
  ultimately show ?thesis using True by metis
qed

lemma postThreads_last:
  assumes "ThreadsUserID conf \<noteq> [] \<and> ThreadsToken conf \<noteq> []"
    and "fst (threads_Post w (ThreadsUserID conf) (ThreadsToken conf) tootContent
            (log InfoLevel (''Posting to Threads: '' @ Title post) s)) = Some e"
  shows "last (trace (postThreads w post conf tootContent s)) =
           Log ErrorLevel (''Failed to post to Threads: '' @ errorText e)"
  using assms
  by (cases "threads_Post w (ThreadsUserID conf) (ThreadsToken conf) tootContent
            (log InfoLevel (''Posting to Threads: '' @ Title post) s)")
     (simp add: postThreads_def)

lemma take2_split: "take 2 es = [a, b] \<Longrightarrow> es = a # b # drop 2 es"
  by (metis append_Cons append_Nil append_take_drop_id)

text \<open>The state in which the secondary publishers start: after the upsert and the log
  line of its failure.\<close>

lemma handlePost_store_unfold:
  "handlePost_store w post conf tootContent s =
     postThreads w post conf tootContent (postBluesky w post conf tootContent
       (case db_fault w (tick s) of
          None \<Rightarrow> snd (StoreTootedPost w (Link post) (Content post) s)
        | Some m \<Rightarrow> log ErrorLevel (''Storing post toot in database failed: '' @ m)
                      (snd (StoreTootedPost w (Link post) (Content post) s))))"
  by (simp add: handlePost_store_def StoreTootedPost_def Let_def split: option.splits)

lemma handlePost_store_rows:
  "rows (handlePost_store w post conf tootContent s) =
     rows (snd (StoreTootedPost w (Link post) (Content post) s))"
  by (simp add: handlePost_store_unfold postThreads_rows postBluesky_rows split: option.splits)

lemma handlePost_store_trace:
  "\<exists>es. trace (handlePost_store w post conf tootContent s) =
          trace s @ DbExec (Link post) (hex (HashContent w (Content post))) (now w (tick s)) # es
     \<and> kindOf ` set es \<subseteq> {KLog, KHttp BlueskySession, KHttp BlueskyRecord,
                               KHttp ThreadsContainer, KHttp ThreadsPublish}"
proof -
  let ?s1 = "snd (StoreTootedPost w (Link post) (Content post) s)"
  let ?s2 = "case db_fault w (tick s) of None \<Rightarrow> ?s1
             | Some m \<Rightarrow> log ErrorLevel (''Storing post toot in database failed: '' @ m) ?s1"
  let ?s3 = "postBluesky w post conf tootContent ?s2"
  obtain l where l: "trace ?s2 = trace ?s1 @ l" "kindOf ` set l \<subseteq> {KLog}"
    by (cases "db_fault w (tick s)") auto
  obtain b where b: "trace ?s3 = trace ?s2 @ b"
      "kindOf ` set b \<subseteq> {KLog, KHttp BlueskySession, KHttp BlueskyRecord}"
    using postBluesky_trace [of w post conf tootContent ?s2] by blast
  obtain t where t: "trace (postThreads w post conf tootContent ?s3) = trace ?s3 @ t"
      "kindOf ` set t \<subseteq> {KLog, KHttp ThreadsContainer, KHttp ThreadsPublish}"
    using postThreads_trace [of w post conf tootContent ?s3] by blast
  have "trace (handlePost_store w post conf tootContent s) =
          trace s @ DbExec (Link post) (hex (HashContent w (Content post))) (now w (tick s)) # (l @ b @ t)"
    using l(1) b(1) t(1) by (simp add: handlePost_store_unfold StoreTootedPost_trace)
  moreover have "kindOf ` set (l @ b @ t) \<subseteq> {KLog, KHttp BlueskySession, KHttp BlueskyRecord,
                               KHttp ThreadsContainer, KHttp ThreadsPublish}"
    using l(2) b(2) t(2) by auto
  ultimately show ?thesis by blast
qed

lemma handlePost_toot_trace:
  "\<exists>es. trace (handlePost_toot w post conf tootContent isUpdate s) = trace s @ es
     \<and> kindOf ` set es \<subseteq> {KLog, KHttp Mastodon, KExec, KHttp BlueskySession, KHttp BlueskyRecord,
                               KHttp ThreadsContainer, KHttp ThreadsPublish}"
proof -
  let ?r = "TootPost w (MastodonURL conf) (MastodonAccessToken conf) tootContent s"
  obtain m where m: "trace (snd ?r) = trace s @ m" "kindOf ` set m \<subseteq> {KHttp Mastodon}"
    using TootPost_trace [of w "MastodonURL conf" "MastodonAccessToken conf" tootContent s] by auto
  show ?thesis
  proof (cases "fst ?r")
    case (Some e)
    then have "trace (handlePost_toot w post conf tootContent isUpdate s) =
        trace s @ (m @ [Log (if isUpdate then ErrorLevel else InfoLevel)
           ((if isUpdate then ''Failed to toot updated post: '' else ''Failed to toot new post: '') @ errorText e)])"
      using m(1) by (cases ?r) (auto simp: handlePost_toot_def)
    moreover have "kindOf ` set (m @ [Log (if isUpdate then ErrorLevel else InfoLevel)
           ((if isUpdate then ''Failed to toot updated post: '' else ''Failed to toot new post: '') @ errorText e)])
          \<subseteq> {KLog, KHttp Mastodon, KExec, KHttp BlueskySession, KHttp BlueskyRecord,
                               KHttp ThreadsContainer, KHttp ThreadsPublish}"
      using m(2) by auto
    ultimately show ?thesis by blast
  next
    case None
    then have eq: "handlePost_toot w post conf tootContent isUpdate s =
        handlePost_store w post conf tootContent (snd ?r)"
      by (cases ?r) (auto simp: handlePost_toot_def)
    obtain es where es: "trace (handlePost_store w post conf tootContent (snd ?r)) =
          trace (snd ?r) @ DbExec (Link post) (hex (HashContent w (Content post))) (now w (tick (snd ?r))) # es"
       "kindOf ` set es \<subseteq> {KLog, KHttp BlueskySession, KHttp BlueskyRecord,
                               KHttp ThreadsContainer, KHttp ThreadsPublish}"
      using handlePost_store_trace [of w post conf tootContent "snd ?r"] by blast
    have "trace (handlePost_toot w post conf tootContent isUpdate s) =
        trace s @ (m @ DbExec (Link post) (hex (HashContent w (Content post))) (now w (tick (snd ?r))) # es)"
      using eq es(1) m(1) by simp
    moreover have "kindOf ` set (m @ DbExec (Link post) (hex (HashContent w (Content post))) (now w (tick (snd ?r))) # es)
       \<subseteq> {KLog, KHttp Mastodon, KExec, KHttp BlueskySession, KHttp BlueskyRecord,
                               KHttp ThreadsContainer, KHttp ThreadsPublish}"
      using m(2) es(2) by auto
    ultimately show ?thesis by blast
  qed
qed

lemma handlePost_trace:
  "\<exists>es. trace (handlePost w post conf s) = trace s @ DbQuery (Link post) # es
     \<and> kindOf ` set es \<subseteq> {KLog, KHttp Mastodon, KExec, KHttp BlueskySession, KHttp BlueskyRecord,
                               KHttp ThreadsContainer, KHttp ThreadsPublish}"
proof -
  let ?K = "{KLog, KHttp Mastodon, KExec, KHttp BlueskySession, KHttp BlueskyRecord,
             KHttp ThreadsContainer, KHttp ThreadsPublish}"
  let ?s1 = "emit (DbQuery (Link post)) s"
  let ?c = "fst (HasPostChanged w (Link post) (Content post) s)"
  have hp: "HasPostChanged w (Link post) (Content post) s = (?c, ?s1)"
    by (metis HasPostChanged_snd prod.collapse)
  obtain ex up err where c: "?c = (ex, up, err)" by (cases ?c) auto
  consider (fault) e where "err = Some e"
    | (update) "err = None" "ex" "up"
    | (new) "err = None" "\<not> ex"
    | (same) "err = None" "ex" "\<not> up" by (cases err) auto
  then show ?thesis
  proof cases
    case fault
    then have "trace (handlePost w post conf s) = trace s @ DbQuery (Link post) # [Log ErrorLevel (''Database error: '' @ errorText e)]"
      using hp c by (simp add: handlePost_def)
    moreover have "kindOf ` set [Log ErrorLevel (''Database error: '' @ errorText e)] \<subseteq> ?K" by simp
    ultimately show ?thesis by blast
  next
    case update
    let ?s2 = "log InfoLevel (''Post has been updated: '' @ Title post) ?s1"
    obtain es where es: "trace (handlePost_toot w post conf (''Blog post has been updated: '' @ Link post) True ?s2)
        = trace ?s2 @ es" "kindOf ` set es \<subseteq> ?K"
      using handlePost_toot_trace by blast
    have "trace (handlePost w post conf s) = trace s @ DbQuery (Link post) # (Log InfoLevel (''Post has been updated: '' @ Title post) # es)"
      using hp c update es(1) by (simp add: handlePost_def)
    moreover have "kindOf ` set (Log InfoLevel (''Post has been updated: '' @ Title post) # es) \<subseteq> ?K"
      using es(2) by auto
    ultimately show ?thesis by blast
  next
    case new
    obtain es where es: "trace (handlePost_toot w post conf (GetTootContent post (SkipPrefixCategories conf)) False ?s1)
        = trace ?s1 @ es" "kindOf ` set es \<subseteq> ?K"
      using handlePost_toot_trace by blast
    have "trace (handlePost w post conf s) = trace s @ DbQuery (Link post) # es"
      using hp c new es(1) by (simp add: handlePost_def)
    then show ?thesis using es(2) by blast
  next
    case same
    then have "trace (handlePost w post conf s) = trace s @ DbQuery (Link post) # []"
      using hp c by (simp add: handlePost_def)
    moreover have "kindOf ` set [] \<subseteq> ?K" by simp
    ultimately show ?thesis by blast
  qed
qed

subsection \<open>The loop over the posts\<close>

lemma filter_kinds_empty:
  "kindOf ` set es \<subseteq> K \<Longrightarrow> k \<notin> K \<Longrightarrow> filter (\<lambda>e. kindOf e = k) es = []"
  by (auto simp: filter_empty_conv)

lemma handlePost_queries:
  "filter (\<lambda>e. kindOf e = KQuery) (trace (handlePost w post conf s)) =
     filter (\<lambda>e. kindOf e = KQuery) (trace s) @ [DbQuery (Link post)]"
proof -
  obtain es where es: "trace (handlePost w post conf s) = trace s @ DbQuery (Link post) # es"
    "kindOf ` set es \<subseteq> {KLog, KHttp Mastodon, KExec, KHttp BlueskySession, KHttp BlueskyRecord,
                               KHttp ThreadsContainer, KHttp ThreadsPublish}"
    using handlePost_trace by blast
  have "filter (\<lambda>e. kindOf e = KQuery) es = []"
    by (rule filter_kinds_empty [OF es(2)]) simp
  then show ?thesis by (simp add: es(1))
qed

lemma processPost_queries:
  "filter (\<lambda>e. kindOf e = KQuery) (trace (processPost w conf s post)) =
     filter (\<lambda>e. kindOf e = KQuery) (trace s)
     @ (if Category conf = [] \<or> Contains (Base (Link post)) (Category conf)
        then [DbQuery (Link post)] else [])"
  by (simp add: processPost_def handlePost_queries)

lemma processPosts_queries:
  "filter (\<lambda>e. kindOf e = KQuery) (trace (processPosts w conf s posts)) =
     filter (\<lambda>e. kindOf e = KQuery) (trace s)
     @ map DbQuery (map Link
         (filter (\<lambda>p. Category conf = [] \<or> Contains (Base (Link p)) (Category conf)) posts))"
  by (induction posts arbitrary: s) (simp_all add: processPost_queries)

lemma Base_last_segment:
  assumes "CHR ''/'' \<notin> set seg" "seg \<noteq> []"
  shows "Base (pre @ ''/'' @ seg) = seg"
proof -
  have r: "rev (pre @ ''/'' @ seg) = rev seg @ CHR ''/'' # rev pre" by simp
  obtain c cs where cs: "rev seg = c # cs" using assms(2) by (cases "rev seg") auto
  have c: "c \<noteq> CHR ''/''" using assms(1) cs by (metis list.set_intros(1) set_rev)
  have d: "dropWhile (\<lambda>c. c = CHR ''/'') (rev seg @ CHR ''/'' # rev pre) = rev seg @ CHR ''/'' # rev pre"
    using cs c by simp
  have "takeWhile (\<lambda>c. c \<noteq> CHR ''/'') (rev seg @ CHR ''/'' # rev pre)
      = rev seg @ takeWhile (\<lambda>c. c \<noteq> CHR ''/'') (CHR ''/'' # rev pre)"
    by (rule takeWhile_append2) (use assms(1) in auto)
  then have t: "takeWhile (\<lambda>c. c \<noteq> CHR ''/'') (rev seg @ CHR ''/'' # rev pre) = rev seg"
    by simp
  show ?thesis
    unfolding Base_def Let_def r d by (simp add: t assms(2))
qed

lemma GetTootContent_format: "GetTootContent post cats = format_spec post cats False"
  by (induction cats) (auto simp: format_spec_def)

subsection \<open>Evaluating the concrete inputs\<close>

lemmas concrete_defs =
  worldOK_def worldTootDown_def worldStoreFails_def worldQueryFails_def worldFeedDown_def
  worldBlueskyDown_def digestStandIn_def state0_def post0_def conf0_def
  withFeed_def post1_def postTech_def postOther_def confTech_def

lemmas model_defs =
  handlePost_def handlePost_toot_def handlePost_store_def postBluesky_def postThreads_def
  HasPostChanged_def StoreTootedPost_def TootPost_def bluesky_Post_def threads_Post_def
  HashContent_def emit_def log_def tick_def hexdigit_def Let_def HasPrefix_def itoa.simps

lemma handlePost_tootDown:
  "handlePost worldTootDown post0 conf0 state0 =
     \<lparr>rows = Map.empty,
      trace = [DbQuery ''L'',
               Http Mastodon ''https://m.example/api/v1/statuses'' ''status=body - L'',
               Log InfoLevel ''Failed to toot new post: unexpected HTTP status: 500'']\<rparr>"
  by (simp add: concrete_defs model_defs)

subsection \<open>The blocks after the toot\<close>

text \<open>
  The part of \<^verbatim>\<open>handlePost\<close> that follows a successful toot, from any state \<open>s\<close>: the
  upsert (state \<open>sB\<close>), the Bluesky block (state \<open>sT\<close>), the Threads block.
\<close>

lemma handlePost_store_blocks:
  assumes sB: "sB = (case db_fault w (tick s) of
                       None \<Rightarrow> snd (StoreTootedPost w (Link post) (Content post) s)
                     | Some m \<Rightarrow> log ErrorLevel (''Storing post toot in database failed: '' @ m)
                                   (snd (StoreTootedPost w (Link post) (Content post) s)))"
    and sT: "sT = postBluesky w post conf tootContent sB"
  shows "(fst (TootPost w (MastodonURL conf) (MastodonAccessToken conf) tootContent sPre) = None
            \<and> s = snd (TootPost w (MastodonURL conf) (MastodonAccessToken conf) tootContent sPre) \<longrightarrow>
          handlePost_toot w post conf tootContent isUpdate sPre = handlePost_store w post conf tootContent s)
    \<and> handlePost_store w post conf tootContent s = postThreads w post conf tootContent sT
    \<and> trace sB = trace s @ DbExec (Link post) (hex (HashContent w (Content post))) (now w (tick s))
                    # (case db_fault w (tick s) of None \<Rightarrow> []
                       | Some m \<Rightarrow> [Log ErrorLevel (''Storing post toot in database failed: '' @ m)])
    \<and> rows sB = rows (snd (StoreTootedPost w (Link post) (Content post) s))
    \<and> rows sT = rows sB
    \<and> rows (handlePost_store w post conf tootContent s) = rows sB
    \<and> (BlueskyHandle conf \<noteq> [] \<and> BlueskyPassword conf \<noteq> [] \<longrightarrow>
         (\<exists>es. trace sT = trace sB @ Log InfoLevel (''Posting to Bluesky: '' @ Title post)
                   # Http BlueskySession (BlueskyPDS conf @ ''/xrpc/com.atproto.server.createSession'')
                       (BlueskyHandle conf) # es
              \<and> kindOf ` set es \<subseteq> {KLog, KHttp BlueskySession, KHttp BlueskyRecord}))
    \<and> (BlueskyHandle conf \<noteq> [] \<and> BlueskyPassword conf \<noteq> []
          \<and> fst (bluesky_Post w (BlueskyHandle conf) (BlueskyPassword conf) (BlueskyPDS conf) tootContent
                   (log InfoLevel (''Posting to Bluesky: '' @ Title post) sB)) = Some e \<longrightarrow>
         last (trace sT) = Log ErrorLevel (''Failed to post to Bluesky: '' @ errorText e))
    \<and> (BlueskyHandle conf = [] \<or> BlueskyPassword conf = [] \<longrightarrow> sT = sB)
    \<and> (ThreadsUserID conf \<noteq> [] \<and> ThreadsToken conf \<noteq> [] \<longrightarrow>
         (\<exists>es. trace (handlePost_store w post conf tootContent s) =
                  trace sT @ Log InfoLevel (''Posting to Threads: '' @ Title post)
                   # Http ThreadsContainer
                       (''https://graph.threads.net/v1.0'' @ ''/'' @ ThreadsUserID conf @ ''/threads'')
                       tootContent # es
              \<and> kindOf ` set es \<subseteq> {KLog, KHttp ThreadsContainer, KHttp ThreadsPublish}))
    \<and> (ThreadsUserID conf \<noteq> [] \<and> ThreadsToken conf \<noteq> []
          \<and> fst (threads_Post w (ThreadsUserID conf) (ThreadsToken conf) tootContent
                   (log InfoLevel (''Posting to Threads: '' @ Title post) sT)) = Some e' \<longrightarrow>
         last (trace (handlePost_store w post conf tootContent s)) =
           Log ErrorLevel (''Failed to post to Threads: '' @ errorText e'))
    \<and> (ThreadsUserID conf = [] \<or> ThreadsToken conf = [] \<longrightarrow>
         handlePost_store w post conf tootContent s = sT)
    \<and> filter (\<lambda>e. kindOf e = KQuery) (trace (processPosts w conf s posts)) =
         filter (\<lambda>e. kindOf e = KQuery) (trace s)
         @ map DbQuery (map Link
             (filter (\<lambda>p. Category conf = [] \<or> Contains (Base (Link p)) (Category conf)) posts))"
proof -
  let ?st = "snd (StoreTootedPost w (Link post) (Content post) s)"
  have c1: "fst (TootPost w (MastodonURL conf) (MastodonAccessToken conf) tootContent sPre) = None
            \<and> s = snd (TootPost w (MastodonURL conf) (MastodonAccessToken conf) tootContent sPre) \<longrightarrow>
          handlePost_toot w post conf tootContent isUpdate sPre = handlePost_store w post conf tootContent s"
    by (cases "TootPost w (MastodonURL conf) (MastodonAccessToken conf) tootContent sPre")
       (simp add: handlePost_toot_def)
  have c2: "handlePost_store w post conf tootContent s = postThreads w post conf tootContent sT"
    by (simp add: handlePost_store_unfold sB sT)
  have c3: "trace sB = trace s @ DbExec (Link post) (hex (HashContent w (Content post))) (now w (tick s))
                    # (case db_fault w (tick s) of None \<Rightarrow> []
                       | Some m \<Rightarrow> [Log ErrorLevel (''Storing post toot in database failed: '' @ m)])"
    by (simp add: sB StoreTootedPost_trace split: option.splits)
  have c4: "rows sB = rows ?st"
    by (simp add: sB split: option.splits)
  have c5: "rows sT = rows sB"
    by (simp add: sT postBluesky_rows)
  have c6: "rows (handlePost_store w post conf tootContent s) = rows sB"
    by (simp add: c2 postThreads_rows c5)
  have c7: "BlueskyHandle conf \<noteq> [] \<and> BlueskyPassword conf \<noteq> [] \<longrightarrow>
         (\<exists>es. trace sT = trace sB @ Log InfoLevel (''Posting to Bluesky: '' @ Title post)
                   # Http BlueskySession (BlueskyPDS conf @ ''/xrpc/com.atproto.server.createSession'')
                       (BlueskyHandle conf) # es
              \<and> kindOf ` set es \<subseteq> {KLog, KHttp BlueskySession, KHttp BlueskyRecord})"
  proof
    assume cfg: "BlueskyHandle conf \<noteq> [] \<and> BlueskyPassword conf \<noteq> []"
    obtain es where es: "trace sT = trace sB @ es"
        "take 2 es = [Log InfoLevel (''Posting to Bluesky: '' @ Title post),
                      Http BlueskySession (BlueskyPDS conf @ ''/xrpc/com.atproto.server.createSession'')
                        (BlueskyHandle conf)]"
        "kindOf ` set es \<subseteq> {KLog, KHttp BlueskySession, KHttp BlueskyRecord}"
      using postBluesky_trace [of w post conf tootContent sB] cfg unfolding sT by auto
    have sp: "es = Log InfoLevel (''Posting to Bluesky: '' @ Title post)
        # Http BlueskySession (BlueskyPDS conf @ ''/xrpc/com.atproto.server.createSession'')
            (BlueskyHandle conf) # drop 2 es"
      using es(2) by (rule take2_split)
    have "kindOf ` set (drop 2 es) \<subseteq> {KLog, KHttp BlueskySession, KHttp BlueskyRecord}"
      using es(3) by (meson image_mono order_trans set_drop_subset)
    then show "\<exists>es. trace sT = trace sB @ Log InfoLevel (''Posting to Bluesky: '' @ Title post)
                   # Http BlueskySession (BlueskyPDS conf @ ''/xrpc/com.atproto.server.createSession'')
                       (BlueskyHandle conf) # es
              \<and> kindOf ` set es \<subseteq> {KLog, KHttp BlueskySession, KHttp BlueskyRecord}"
      using es(1) sp by metis
  qed
  have c8: "BlueskyHandle conf \<noteq> [] \<and> BlueskyPassword conf \<noteq> []
          \<and> fst (bluesky_Post w (BlueskyHandle conf) (BlueskyPassword conf) (BlueskyPDS conf) tootContent
                   (log InfoLevel (''Posting to Bluesky: '' @ Title post) sB)) = Some e \<longrightarrow>
         last (trace sT) = Log ErrorLevel (''Failed to post to Bluesky: '' @ errorText e)"
    unfolding sT using postBluesky_last [of conf w tootContent post sB e] by blast
  have c9: "BlueskyHandle conf = [] \<or> BlueskyPassword conf = [] \<longrightarrow> sT = sB"
    by (auto simp: sT postBluesky_def)
  have c10: "ThreadsUserID conf \<noteq> [] \<and> ThreadsToken conf \<noteq> [] \<longrightarrow>
         (\<exists>es. trace (handlePost_store w post conf tootContent s) =
                  trace sT @ Log InfoLevel (''Posting to Threads: '' @ Title post)
                   # Http ThreadsContainer
                       (''https://graph.threads.net/v1.0'' @ ''/'' @ ThreadsUserID conf @ ''/threads'')
                       tootContent # es
              \<and> kindOf ` set es \<subseteq> {KLog, KHttp ThreadsContainer, KHttp ThreadsPublish})"
  proof
    assume cfg: "ThreadsUserID conf \<noteq> [] \<and> ThreadsToken conf \<noteq> []"
    obtain es where es: "trace (postThreads w post conf tootContent sT) = trace sT @ es"
        "take 2 es = [Log InfoLevel (''Posting to Threads: '' @ Title post),
                      Http ThreadsContainer
                       (''https://graph.threads.net/v1.0'' @ ''/'' @ ThreadsUserID conf @ ''/threads'')
                       tootContent]"
        "kindOf ` set es \<subseteq> {KLog, KHttp ThreadsContainer, KHttp ThreadsPublish}"
      using postThreads_trace [of w post conf tootContent sT] cfg by auto
    have sp: "es = Log InfoLevel (''Posting to Threads: '' @ Title post)
        # Http ThreadsContainer
            (''https://graph.threads.net/v1.0'' @ ''/'' @ ThreadsUserID conf @ ''/threads'')
            tootContent # drop 2 es"
      using es(2) by (rule take2_split)
    have "kindOf ` set (drop 2 es) \<subseteq> {KLog, KHttp ThreadsContainer, KHttp ThreadsPublish}"
      using es(3) by (meson image_mono order_trans set_drop_subset)
    then show "\<exists>es. trace (handlePost_store w post conf tootContent s) =
                  trace sT @ Log InfoLevel (''Posting to Threads: '' @ Title post)
                   # Http ThreadsContainer
                       (''https://graph.threads.net/v1.0'' @ ''/'' @ ThreadsUserID conf @ ''/threads'')
                       tootContent # es
              \<and> kindOf ` set es \<subseteq> {KLog, KHttp ThreadsContainer, KHttp ThreadsPublish}"
      unfolding c2 using es(1) sp by metis
  qed
  have c11: "ThreadsUserID conf \<noteq> [] \<and> ThreadsToken conf \<noteq> []
          \<and> fst (threads_Post w (ThreadsUserID conf) (ThreadsToken conf) tootContent
                   (log InfoLevel (''Posting to Threads: '' @ Title post) sT)) = Some e' \<longrightarrow>
         last (trace (handlePost_store w post conf tootContent s)) =
           Log ErrorLevel (''Failed to post to Threads: '' @ errorText e')"
    unfolding c2 using postThreads_last [of conf w tootContent post sT e'] by blast
  have c12: "ThreadsUserID conf = [] \<or> ThreadsToken conf = [] \<longrightarrow>
         handlePost_store w post conf tootContent s = sT"
    unfolding c2 by (auto simp: postThreads_def)
  note c13 = processPosts_queries [of w conf s posts]
  show ?thesis
    by (intro conjI) (fact c1 c2 c3 c4 c5 c6 c7 c8 c9 c10 c11 c12 c13)+
qed

subsection \<open>The pass of the loop\<close>

lemma CheckRSSFeed_snd: "snd (CheckRSSFeed w url s) = emit (Http Feed url []) s"
  by (simp add: CheckRSSFeed_def Let_def split: feed_result.splits sum.splits)

lemma runIteration_fetched:
  assumes "fst (CheckRSSFeed w (FeedURL conf) s) = Inr posts"
  shows "runIteration w conf s =
           emit (Sleep (sleepDuration conf))
             (processPosts w conf (emit (Http Feed (FeedURL conf) []) s) posts)"
proof -
  have "CheckRSSFeed w (FeedURL conf) s = (Inr posts, emit (Http Feed (FeedURL conf) []) s)"
    using assms by (metis CheckRSSFeed_snd prod.collapse)
  then show ?thesis by (simp add: runIteration_def)
qed

lemma processPosts_append:
  "processPosts w conf s (xs @ ys) = processPosts w conf (processPosts w conf s xs) ys"
  by (induction xs arbitrary: s) simp_all

lemma processPosts_dropped:
  assumes "Category conf \<noteq> []"
    and "\<forall>p\<in>set posts. \<not> Contains (Base (Link p)) (Category conf)"
  shows "rows (processPosts w conf s posts) = rows s
     \<and> trace (processPosts w conf s posts) =
         trace s @ map (\<lambda>p. Log DebugLevel (skipMessage p conf)) posts"
  using assms by (induction posts arbitrary: s) (simp_all add: processPost_def)

lemmas loop_defs =
  runIteration_def CheckRSSFeed_def processPost_def Base_def skipMessage_def Run_def InitDB_def
  checkInterval_def sleepDuration_def Minute_def

text \<open>
  The check of the interval before the loop: an interval that is zero or negative is
  replaced by 60, and a positive interval is left as it is, together with the rest of
  the configuration. After the replacement the duration handed to \<^verbatim>\<open>time.Sleep\<close> is 60
  minutes (3600000000000 ns). \<^verbatim>\<open>Run\<close> enters its loop with the checked configuration
  (when the feed URL is set and the database opens), and a pass of the loop whose fetch
  succeeds ends with the sleep of that configuration.
\<close>

lemma checkInterval_corrects:
  "Interval (fst (checkInterval conf s)) = (if sint (Interval conf) \<le> 0 then 60 else Interval conf)
   \<and> (sint (Interval conf) \<le> 0 \<longrightarrow>
        sint (sleepDuration (fst (checkInterval conf s))) = 60 * 60000000000)
   \<and> (0 < sint (Interval conf) \<longrightarrow> fst (checkInterval conf s) = conf)
   \<and> (FeedURL conf \<noteq> [] \<and> db_open_fault w (tick (snd (checkInterval conf s))) = None
        \<and> db_fault w (Suc (tick (snd (checkInterval conf s)))) = None \<longrightarrow>
        Run w n conf s =
          runLoop w (fst (checkInterval conf s)) n
            (emit DbCreateTable (emit DbOpen (snd (checkInterval conf s)))))
   \<and> (fst (CheckRSSFeed w (FeedURL c) s) = Inr posts \<longrightarrow>
        last (trace (runIteration w c s)) = Sleep (sleepDuration c))"
proof -
  have a: "Interval (fst (checkInterval conf s)) = (if sint (Interval conf) \<le> 0 then 60 else Interval conf)"
    by (simp add: checkInterval_def)
  have b: "sint (Interval conf) \<le> 0 \<longrightarrow>
        sint (sleepDuration (fst (checkInterval conf s))) = 60 * 60000000000"
    by (simp add: checkInterval_def sleepDuration_def Minute_def)
  have c: "0 < sint (Interval conf) \<longrightarrow> fst (checkInterval conf s) = conf"
    by (simp add: checkInterval_def)
  have d: "FeedURL conf \<noteq> [] \<and> db_open_fault w (tick (snd (checkInterval conf s))) = None
        \<and> db_fault w (Suc (tick (snd (checkInterval conf s)))) = None \<longrightarrow>
        Run w n conf s =
          runLoop w (fst (checkInterval conf s)) n
            (emit DbCreateTable (emit DbOpen (snd (checkInterval conf s))))"
    by (simp add: Run_def InitDB_def Let_def split: prod.splits)
  have e: "fst (CheckRSSFeed w (FeedURL c) s) = Inr posts \<longrightarrow>
        last (trace (runIteration w c s)) = Sleep (sleepDuration c)"
    by (simp add: runIteration_fetched)
  from a b c d e show ?thesis by blast
qed

section \<open>The claims\<close>

text \<open>
  Claim C1. Let an item be classified as new or updated, and let the call of
  \<^verbatim>\<open>mastodon.TootPost\<close> that \<^verbatim>\<open>handlePost\<close> makes for it return an error (\<open>s2\<close> is the
  state and \<open>txt\<close> the text of that call). Then the rows of the table are what they
  were; after the lookup (and the log line of an update) the only effects are the
  request to Mastodon, if the credentials are set and the URL parses, and one log line,
  so that there is no
  upsert and no request to Bluesky or Threads; and in any later state with these rows
  the lookup for the same content gives the same classification again.
\<close>

theorem C1_primary_failure_leaves_store:
  assumes cls: "fst (HasPostChanged w (Link post) (Content post) s) = (ex, up, None)"
    and newOrUpdated: "up \<or> \<not> ex"
    and s2: "s2 = (if ex then log InfoLevel (''Post has been updated: '' @ Title post)
                               (emit (DbQuery (Link post)) s)
                   else emit (DbQuery (Link post)) s)"
    and tx: "txt = (if ex then ''Blog post has been updated: '' @ Link post
                     else GetTootContent post (SkipPrefixCategories conf))"
    and fail: "fst (TootPost w (MastodonURL conf) (MastodonAccessToken conf) txt s2) = Some e"
  shows "rows (handlePost w post conf s) = rows s
    \<and> trace (handlePost w post conf s) =
        trace s2
        @ (if MastodonURL conf = [] \<or> MastodonAccessToken conf = []
              \<or> new_request_error w (MastodonURL conf @ ''/api/v1/statuses'') \<noteq> None
           then []
           else [Http Mastodon (MastodonURL conf @ ''/api/v1/statuses'') (''status='' @ txt)])
        @ [Log (if ex then ErrorLevel else InfoLevel)
             ((if ex then ''Failed to toot updated post: '' else ''Failed to toot new post: '')
              @ errorText e)]
    \<and> (\<exists>es. trace (handlePost w post conf s) = trace s @ es
           \<and> kindOf ` set es \<subseteq> {KQuery, KLog, KHttp Mastodon})
    \<and> (\<forall>s'. rows s' = rows (handlePost w post conf s) \<and> db_fault w (tick s') = None \<longrightarrow>
           fst (HasPostChanged w (Link post) (Content post) s') = (ex, up, None))"
proof -
  let ?s1 = "emit (DbQuery (Link post)) s"
  let ?r = "TootPost w (MastodonURL conf) (MastodonAccessToken conf) txt s2"
  let ?l = "Log (if ex then ErrorLevel else InfoLevel)
             ((if ex then ''Failed to toot updated post: '' else ''Failed to toot new post: '')
              @ errorText e)"
  let ?m = "if MastodonURL conf = [] \<or> MastodonAccessToken conf = []
              \<or> new_request_error w (MastodonURL conf @ ''/api/v1/statuses'') \<noteq> None
           then []
           else [Http Mastodon (MastodonURL conf @ ''/api/v1/statuses'') (''status='' @ txt)]"
  have hp: "HasPostChanged w (Link post) (Content post) s = ((ex, up, None), ?s1)"
    using cls by (metis HasPostChanged_snd prod.collapse)
  have h: "handlePost w post conf s = handlePost_toot w post conf txt ex s2"
    using hp newOrUpdated by (auto simp: handlePost_def s2 tx)
  have r: "?r = (Some e, snd ?r)"
    using fail by (metis prod.collapse)
  have t: "handlePost_toot w post conf txt ex s2 = emit ?l (snd ?r)"
    by (subst handlePost_toot_def, subst r) (simp add: log_def)
  have res: "handlePost w post conf s = emit ?l (snd ?r)"
    using h t by simp
  have rows: "rows (handlePost w post conf s) = rows s"
    by (simp add: res TootPost_rows s2)
  have tr: "trace (handlePost w post conf s) = trace s2 @ ?m @ [?l]"
    by (simp add: res TootPost_trace)
  have tr2: "trace s2 = trace s @ DbQuery (Link post)
       # (if ex then [Log InfoLevel (''Post has been updated: '' @ Title post)] else [])"
    by (simp add: s2)
  have foot: "\<exists>es. trace (handlePost w post conf s) = trace s @ es
           \<and> kindOf ` set es \<subseteq> {KQuery, KLog, KHttp Mastodon}"
  proof -
    let ?es = "DbQuery (Link post)
       # (if ex then [Log InfoLevel (''Post has been updated: '' @ Title post)] else []) @ ?m @ [?l]"
    have "trace (handlePost w post conf s) = trace s @ ?es"
      using tr tr2 by simp
    moreover have "kindOf ` set ?es \<subseteq> {KQuery, KLog, KHttp Mastodon}"
      by auto
    ultimately show ?thesis by blast
  qed
  have nf: "db_fault w (tick s) = None"
    using cls by (simp add: HasPostChanged_fst split: option.splits)
  have again: "fst (HasPostChanged w (Link post) (Content post) s') = (ex, up, None)"
    if "rows s' = rows (handlePost w post conf s)" "db_fault w (tick s') = None" for s'
  proof -
    have "rows s' = rows s" using that(1) rows by simp
    then show ?thesis
      using cls nf that(2) by (simp add: HasPostChanged_fst)
  qed
  from rows tr foot again show ?thesis by blast
qed

theorem C1_witness:
  "fst (HasPostChanged worldTootDown (Link post0) (Content post0) state0) = (False, False, None)
   \<and> fst (TootPost worldTootDown (MastodonURL conf0) (MastodonAccessToken conf0)
            (GetTootContent post0 (SkipPrefixCategories conf0)) (emit (DbQuery (Link post0)) state0))
       = Some (Status ''unexpected HTTP status: '' 500)
   \<and> rows (handlePost worldTootDown post0 conf0 state0) = rows state0
   \<and> trace (handlePost worldTootDown post0 conf0 state0) =
        [DbQuery ''L'',
         Http Mastodon ''https://m.example/api/v1/statuses'' ''status=body - L'',
         Log InfoLevel ''Failed to toot new post: unexpected HTTP status: 500'']
   \<and> fst (HasPostChanged worldTootDown (Link post0) (Content post0)
            (handlePost worldTootDown post0 conf0 state0)) = (False, False, None)"
proof -
  have c: "fst (HasPostChanged worldTootDown (Link post0) (Content post0) state0) = (False, False, None)"
    by (simp add: concrete_defs model_defs)
  have f: "fst (TootPost worldTootDown (MastodonURL conf0) (MastodonAccessToken conf0)
            (GetTootContent post0 (SkipPrefixCategories conf0)) (emit (DbQuery (Link post0)) state0))
       = Some (Status ''unexpected HTTP status: '' 500)"
    by (simp add: concrete_defs model_defs)
  have n: "db_fault worldTootDown (tick (handlePost worldTootDown post0 conf0 state0)) = None"
    by (simp add: concrete_defs)
  note th = C1_primary_failure_leaves_store [of worldTootDown post0 state0 False False
      "emit (DbQuery (Link post0)) state0" "GetTootContent post0 (SkipPrefixCategories conf0)" conf0
      "Status ''unexpected HTTP status: '' 500", OF c _ _ _ f]
  have th': "rows (handlePost worldTootDown post0 conf0 state0) = rows state0
     \<and> (\<forall>s'. rows s' = rows (handlePost worldTootDown post0 conf0 state0)
            \<and> db_fault worldTootDown (tick s') = None \<longrightarrow>
           fst (HasPostChanged worldTootDown (Link post0) (Content post0) s') = (False, False, None))"
    using th by simp
  then have "fst (HasPostChanged worldTootDown (Link post0) (Content post0)
            (handlePost worldTootDown post0 conf0 state0)) = (False, False, None)"
    using n by blast
  with c f th' show ?thesis by (simp add: handlePost_tootDown)
qed

text \<open>
  Claim C2. \<^verbatim>\<open>HasPostChanged\<close> never changes the rows of the table. When the storage
  layer does not fail: no record for the link gives (false, false); a record whose
  stored hash differs from the hash of the content gives (true, true); a record whose
  stored hash equals it gives (true, false). After \<^verbatim>\<open>StoreTootedPost(link, c1)\<close> has
  succeeded, the same content is unchanged, a content \<open>c2\<close> whose digest differs from
  that of \<open>c1\<close> is updated, and a link that has no record is new. (A digest of 32 bytes
  cannot tell all contents apart; that two different contents have different digests is
  what the collision resistance of SHA-256 stands for, and it is a hypothesis here.)
\<close>

theorem C2_classify:
  "rows (snd (HasPostChanged w link content s)) = rows s
   \<and> (db_fault w (tick s) = None \<longrightarrow>
        (rows s link = None \<longrightarrow>
           fst (HasPostChanged w link content s) = (False, False, None))
      \<and> (\<forall>storedHash stamp. rows s link = Some (storedHash, stamp) \<longrightarrow>
           (storedHash \<noteq> hex (HashContent w content) \<longrightarrow>
              fst (HasPostChanged w link content s) = (True, True, None))
         \<and> (storedHash = hex (HashContent w content) \<longrightarrow>
              fst (HasPostChanged w link content s) = (True, False, None))))
   \<and> (StoreTootedPost w link c1 s = (None, s1) \<and> db_fault w (tick s1) = None \<longrightarrow>
        fst (HasPostChanged w link c1 s1) = (True, False, None)
      \<and> (sha256 w c2 \<noteq> sha256 w c1 \<longrightarrow>
           fst (HasPostChanged w link c2 s1) = (True, True, None))
      \<and> (otherLink \<noteq> link \<and> rows s otherLink = None \<longrightarrow>
           fst (HasPostChanged w otherLink anything s1) = (False, False, None)))"
proof -
  have a: "rows (snd (HasPostChanged w link content s)) = rows s"
    by (simp add: HasPostChanged_snd)
  have b: "db_fault w (tick s) = None \<longrightarrow>
        (rows s link = None \<longrightarrow>
           fst (HasPostChanged w link content s) = (False, False, None))
      \<and> (\<forall>storedHash stamp. rows s link = Some (storedHash, stamp) \<longrightarrow>
           (storedHash \<noteq> hex (HashContent w content) \<longrightarrow>
              fst (HasPostChanged w link content s) = (True, True, None))
         \<and> (storedHash = hex (HashContent w content) \<longrightarrow>
              fst (HasPostChanged w link content s) = (True, False, None)))"
    by (simp add: HasPostChanged_fst)
  have c: "StoreTootedPost w link c1 s = (None, s1) \<and> db_fault w (tick s1) = None \<longrightarrow>
        fst (HasPostChanged w link c1 s1) = (True, False, None)
      \<and> (sha256 w c2 \<noteq> sha256 w c1 \<longrightarrow>
           fst (HasPostChanged w link c2 s1) = (True, True, None))
      \<and> (otherLink \<noteq> link \<and> rows s otherLink = None \<longrightarrow>
           fst (HasPostChanged w otherLink anything s1) = (False, False, None))"
  proof (intro impI, elim conjE)
    assume st: "StoreTootedPost w link c1 s = (None, s1)" and nf: "db_fault w (tick s1) = None"
    from st have f: "db_fault w (tick s) = None"
      using StoreTootedPost_fst [of w link c1 s] by simp
    from st have s1: "s1 = snd (StoreTootedPost w link c1 s)" by simp
    have r: "rows s1 = (rows s)(link \<mapsto> (hex (HashContent w c1), now w (tick s)))"
      using f by (simp add: s1 StoreTootedPost_rows)
    have h: "sha256 w c2 \<noteq> sha256 w c1 \<Longrightarrow> hex (HashContent w c1) \<noteq> hex (HashContent w c2)"
      by (auto simp: HashContent_def dest: hex_inj)
    show "fst (HasPostChanged w link c1 s1) = (True, False, None)
      \<and> (sha256 w c2 \<noteq> sha256 w c1 \<longrightarrow>
           fst (HasPostChanged w link c2 s1) = (True, True, None))
      \<and> (otherLink \<noteq> link \<and> rows s otherLink = None \<longrightarrow>
           fst (HasPostChanged w otherLink anything s1) = (False, False, None))"
      using nf r h by (simp add: HasPostChanged_fst)
  qed
  from a b c show ?thesis by blast
qed

theorem C2_witness:
  "StoreTootedPost worldOK ''L'' ''body'' state0
     = (None, \<lparr>rows = [''L'' \<mapsto> (''626f6479'', ''2026-01-01T00:00:00Z'')],
               trace = [DbExec ''L'' ''626f6479'' ''2026-01-01T00:00:00Z'']\<rparr>)
   \<and> sha256 worldOK ''edited'' \<noteq> sha256 worldOK ''body''
   \<and> fst (HasPostChanged worldOK ''L'' ''body''
          \<lparr>rows = [''L'' \<mapsto> (''626f6479'', ''2026-01-01T00:00:00Z'')],
           trace = [DbExec ''L'' ''626f6479'' ''2026-01-01T00:00:00Z'']\<rparr>) = (True, False, None)
   \<and> fst (HasPostChanged worldOK ''L'' ''edited''
          \<lparr>rows = [''L'' \<mapsto> (''626f6479'', ''2026-01-01T00:00:00Z'')],
           trace = [DbExec ''L'' ''626f6479'' ''2026-01-01T00:00:00Z'']\<rparr>) = (True, True, None)
   \<and> fst (HasPostChanged worldOK ''M'' ''x''
          \<lparr>rows = [''L'' \<mapsto> (''626f6479'', ''2026-01-01T00:00:00Z'')],
           trace = [DbExec ''L'' ''626f6479'' ''2026-01-01T00:00:00Z'']\<rparr>) = (False, False, None)
   \<and> fst (HasPostChanged worldOK ''L'' ''body'' state0) = (False, False, None)"
proof -
  let ?s1 = "\<lparr>rows = [''L'' \<mapsto> (''626f6479'', ''2026-01-01T00:00:00Z'')],
             trace = [DbExec ''L'' ''626f6479'' ''2026-01-01T00:00:00Z'']\<rparr>"
  have st: "StoreTootedPost worldOK ''L'' ''body'' state0 = (None, ?s1)"
    by (simp add: StoreTootedPost_def worldOK_def state0_def HashContent_def digestStandIn_def
          emit_def tick_def hexdigit_def Let_def)
  have nf: "db_fault worldOK (tick ?s1) = None" "db_fault worldOK (tick state0) = None"
    by (simp_all add: worldOK_def)
  have ne: "sha256 worldOK ''edited'' \<noteq> sha256 worldOK ''body''"
    by (simp add: worldOK_def digestStandIn_def)
  have ot: "''M'' \<noteq> ''L''" "rows state0 ''M'' = None" "rows state0 ''L'' = None"
    by (simp_all add: state0_def)
  from C2_classify [of worldOK "''L''" "''body''" state0 "''body''" ?s1 "''edited''" "''M''" "''x''"]
    st nf ne ot
  show ?thesis by simp
qed

text \<open>
  Claim C3. Let an item be classified as new or updated, and let the call of
  \<^verbatim>\<open>mastodon.TootPost\<close> that \<^verbatim>\<open>handlePost\<close> makes for it succeed (\<open>s2\<close> is the state
  before that call, \<open>s3\<close> the state after it). Then the next effect of \<^verbatim>\<open>handlePost\<close>
  is the upsert of the link with the hash of the content, followed by a log line if the
  upsert failed (state \<open>sB\<close>); then comes the Bluesky block (state \<open>sT\<close>), then the
  Threads block, which ends \<^verbatim>\<open>handlePost\<close>. The rows at the end are those after the
  upsert: neither block changes them. A block whose credentials are set logs and sends
  its first request whatever happened before it, and when its publisher returns an
  error the block ends with the error log line; a block whose credentials are not set
  does nothing. The pass of the loop goes on: when the fetch has given the posts, every
  post that passes the category filter is looked up, in the order of the feed, the posts
  after a handled item are processed from the state in which \<^verbatim>\<open>handlePost\<close> left it,
  and the pass ends with the sleep.
\<close>

theorem C3_secondaries_after_record:
  assumes cls: "fst (HasPostChanged w (Link post) (Content post) s) = (ex, up, None)"
    and newOrUpdated: "up \<or> \<not> ex"
    and s2: "s2 = (if ex then log InfoLevel (''Post has been updated: '' @ Title post)
                               (emit (DbQuery (Link post)) s)
                   else emit (DbQuery (Link post)) s)"
    and tx: "tootContent = (if ex then ''Blog post has been updated: '' @ Link post
                            else GetTootContent post (SkipPrefixCategories conf))"
    and ok: "TootPost w (MastodonURL conf) (MastodonAccessToken conf) tootContent s2 = (None, s3)"
    and sB: "sB = (case db_fault w (tick s3) of
                       None \<Rightarrow> snd (StoreTootedPost w (Link post) (Content post) s3)
                     | Some m \<Rightarrow> log ErrorLevel (''Storing post toot in database failed: '' @ m)
                                   (snd (StoreTootedPost w (Link post) (Content post) s3)))"
    and sT: "sT = postBluesky w post conf tootContent sB"
  shows "handlePost w post conf s = postThreads w post conf tootContent sT
    \<and> trace s3 = trace s2 @ [Http Mastodon (MastodonURL conf @ ''/api/v1/statuses'')
                               (''status='' @ tootContent)]
    \<and> trace sB = trace s3 @ DbExec (Link post) (hex (HashContent w (Content post))) (now w (tick s3))
                    # (case db_fault w (tick s3) of None \<Rightarrow> []
                       | Some m \<Rightarrow> [Log ErrorLevel (''Storing post toot in database failed: '' @ m)])
    \<and> rows sB = (case db_fault w (tick s3) of
                   None \<Rightarrow> (rows s)(Link post \<mapsto> (hex (HashContent w (Content post)), now w (tick s3)))
                 | Some m \<Rightarrow> rows s)
    \<and> rows sT = rows sB
    \<and> rows (handlePost w post conf s) = rows sB
    \<and> (BlueskyHandle conf \<noteq> [] \<and> BlueskyPassword conf \<noteq> [] \<longrightarrow>
         (\<exists>es. trace sT = trace sB @ Log InfoLevel (''Posting to Bluesky: '' @ Title post)
                   # Http BlueskySession (BlueskyPDS conf @ ''/xrpc/com.atproto.server.createSession'')
                       (BlueskyHandle conf) # es
              \<and> kindOf ` set es \<subseteq> {KLog, KHttp BlueskySession, KHttp BlueskyRecord}))
    \<and> (BlueskyHandle conf \<noteq> [] \<and> BlueskyPassword conf \<noteq> []
          \<and> fst (bluesky_Post w (BlueskyHandle conf) (BlueskyPassword conf) (BlueskyPDS conf) tootContent
                   (log InfoLevel (''Posting to Bluesky: '' @ Title post) sB)) = Some e \<longrightarrow>
         last (trace sT) = Log ErrorLevel (''Failed to post to Bluesky: '' @ errorText e))
    \<and> (BlueskyHandle conf = [] \<or> BlueskyPassword conf = [] \<longrightarrow> sT = sB)
    \<and> (ThreadsUserID conf \<noteq> [] \<and> ThreadsToken conf \<noteq> [] \<longrightarrow>
         (\<exists>es. trace (handlePost w post conf s) =
                  trace sT @ Log InfoLevel (''Posting to Threads: '' @ Title post)
                   # Http ThreadsContainer
                       (''https://graph.threads.net/v1.0'' @ ''/'' @ ThreadsUserID conf @ ''/threads'')
                       tootContent # es
              \<and> kindOf ` set es \<subseteq> {KLog, KHttp ThreadsContainer, KHttp ThreadsPublish}))
    \<and> (ThreadsUserID conf \<noteq> [] \<and> ThreadsToken conf \<noteq> []
          \<and> fst (threads_Post w (ThreadsUserID conf) (ThreadsToken conf) tootContent
                   (log InfoLevel (''Posting to Threads: '' @ Title post) sT)) = Some e' \<longrightarrow>
         last (trace (handlePost w post conf s)) =
           Log ErrorLevel (''Failed to post to Threads: '' @ errorText e'))
    \<and> (ThreadsUserID conf = [] \<or> ThreadsToken conf = [] \<longrightarrow> handlePost w post conf s = sT)
    \<and> (fst (CheckRSSFeed w (FeedURL conf) sF) = Inr posts \<longrightarrow>
         filter (\<lambda>e. kindOf e = KQuery) (trace (runIteration w conf sF)) =
           filter (\<lambda>e. kindOf e = KQuery) (trace sF)
           @ map DbQuery (map Link
               (filter (\<lambda>p. Category conf = [] \<or> Contains (Base (Link p)) (Category conf)) posts))
         \<and> last (trace (runIteration w conf sF)) = Sleep (sleepDuration conf))
    \<and> (fst (CheckRSSFeed w (FeedURL conf) sF) = Inr (earlier @ item # later)
          \<and> (Category conf = [] \<or> Contains (Base (Link item)) (Category conf)) \<longrightarrow>
         runIteration w conf sF =
           emit (Sleep (sleepDuration conf))
             (processPosts w conf
                (handlePost w item conf
                   (processPosts w conf (emit (Http Feed (FeedURL conf) []) sF) earlier))
                later))"
proof -
  let ?s1 = "emit (DbQuery (Link post)) s"
  have hp: "HasPostChanged w (Link post) (Content post) s = ((ex, up, None), ?s1)"
    using cls by (metis HasPostChanged_snd prod.collapse)
  have h: "handlePost w post conf s = handlePost_toot w post conf tootContent ex s2"
    using hp newOrUpdated by (auto simp: handlePost_def s2 tx)
  have t: "handlePost_toot w post conf tootContent ex s2 = handlePost_store w post conf tootContent s3"
    by (subst handlePost_toot_def, subst ok) simp
  have eq: "handlePost w post conf s = handlePost_store w post conf tootContent s3"
    using h t by simp
  have s3: "s3 = emit (Http Mastodon (MastodonURL conf @ ''/api/v1/statuses'')
                         (''status='' @ tootContent)) s2"
    using TootPost_success [of w "MastodonURL conf" "MastodonAccessToken conf" tootContent s2] ok
    by simp
  have r3: "rows s3 = rows s"
    by (simp add: s3 s2)
  note k = handlePost_store_blocks [where w = w and post = post and conf = conf
      and tootContent = tootContent and s = s3 and sB = sB and sT = sT and e = e and e' = e'
      and sPre = s2 and isUpdate = ex and posts = "[]", OF sB sT]
  note k2 = k [THEN conjunct2]
  note k3 = k2 [THEN conjunct2]
  note k4 = k3 [THEN conjunct2]
  note k5 = k4 [THEN conjunct2]
  note k6 = k5 [THEN conjunct2]
  note k7 = k6 [THEN conjunct2]
  note k8 = k7 [THEN conjunct2]
  note k9 = k8 [THEN conjunct2]
  note k10 = k9 [THEN conjunct2]
  note k11 = k10 [THEN conjunct2]
  note k12 = k11 [THEN conjunct2]
  have n1: "handlePost w post conf s = postThreads w post conf tootContent sT"
    using k2 [THEN conjunct1] eq by simp
  have n2: "trace s3 = trace s2 @ [Http Mastodon (MastodonURL conf @ ''/api/v1/statuses'')
                               (''status='' @ tootContent)]"
    by (simp add: s3)
  note n3 = k3 [THEN conjunct1]
  have n4: "rows sB = (case db_fault w (tick s3) of
                   None \<Rightarrow> (rows s)(Link post \<mapsto> (hex (HashContent w (Content post)), now w (tick s3)))
                 | Some m \<Rightarrow> rows s)"
    using k4 [THEN conjunct1] r3 by (simp add: StoreTootedPost_rows split: option.splits)
  note n5 = k5 [THEN conjunct1]
  have n6: "rows (handlePost w post conf s) = rows sB"
    using k6 [THEN conjunct1] eq by simp
  note n7 = k7 [THEN conjunct1]
  note n8 = k8 [THEN conjunct1]
  note n9 = k9 [THEN conjunct1]
  have n10: "ThreadsUserID conf \<noteq> [] \<and> ThreadsToken conf \<noteq> [] \<longrightarrow>
         (\<exists>es. trace (handlePost w post conf s) =
                  trace sT @ Log InfoLevel (''Posting to Threads: '' @ Title post)
                   # Http ThreadsContainer
                       (''https://graph.threads.net/v1.0'' @ ''/'' @ ThreadsUserID conf @ ''/threads'')
                       tootContent # es
              \<and> kindOf ` set es \<subseteq> {KLog, KHttp ThreadsContainer, KHttp ThreadsPublish})"
    using k10 [THEN conjunct1] unfolding eq .
  have n11: "ThreadsUserID conf \<noteq> [] \<and> ThreadsToken conf \<noteq> []
          \<and> fst (threads_Post w (ThreadsUserID conf) (ThreadsToken conf) tootContent
                   (log InfoLevel (''Posting to Threads: '' @ Title post) sT)) = Some e' \<longrightarrow>
         last (trace (handlePost w post conf s)) =
           Log ErrorLevel (''Failed to post to Threads: '' @ errorText e')"
    using k11 [THEN conjunct1] unfolding eq .
  have n12: "ThreadsUserID conf = [] \<or> ThreadsToken conf = [] \<longrightarrow> handlePost w post conf s = sT"
    using k12 [THEN conjunct1] unfolding eq .
  have fetched: "runIteration w conf sF =
        emit (Sleep (sleepDuration conf))
          (processPosts w conf (emit (Http Feed (FeedURL conf) []) sF) ps)"
    if "fst (CheckRSSFeed w (FeedURL conf) sF) = Inr ps" for ps
  proof -
    from that have "CheckRSSFeed w (FeedURL conf) sF = (Inr ps, emit (Http Feed (FeedURL conf) []) sF)"
      by (metis CheckRSSFeed_snd prod.collapse)
    then show ?thesis by (simp add: runIteration_def)
  qed
  have n13: "fst (CheckRSSFeed w (FeedURL conf) sF) = Inr posts \<longrightarrow>
         filter (\<lambda>e. kindOf e = KQuery) (trace (runIteration w conf sF)) =
           filter (\<lambda>e. kindOf e = KQuery) (trace sF)
           @ map DbQuery (map Link
               (filter (\<lambda>p. Category conf = [] \<or> Contains (Base (Link p)) (Category conf)) posts))
         \<and> last (trace (runIteration w conf sF)) = Sleep (sleepDuration conf)"
  proof
    assume f: "fst (CheckRSSFeed w (FeedURL conf) sF) = Inr posts"
    have "last (trace (runIteration w conf sF)) = Sleep (sleepDuration conf)"
      by (simp add: fetched [OF f])
    moreover have "filter (\<lambda>e. kindOf e = KQuery) (trace (runIteration w conf sF)) =
           filter (\<lambda>e. kindOf e = KQuery) (trace sF)
           @ map DbQuery (map Link
               (filter (\<lambda>p. Category conf = [] \<or> Contains (Base (Link p)) (Category conf)) posts))"
      by (simp add: fetched [OF f] processPosts_queries)
    ultimately show "filter (\<lambda>e. kindOf e = KQuery) (trace (runIteration w conf sF)) =
           filter (\<lambda>e. kindOf e = KQuery) (trace sF)
           @ map DbQuery (map Link
               (filter (\<lambda>p. Category conf = [] \<or> Contains (Base (Link p)) (Category conf)) posts))
         \<and> last (trace (runIteration w conf sF)) = Sleep (sleepDuration conf)"
      by simp
  qed
  have n14: "fst (CheckRSSFeed w (FeedURL conf) sF) = Inr (earlier @ item # later)
          \<and> (Category conf = [] \<or> Contains (Base (Link item)) (Category conf)) \<longrightarrow>
         runIteration w conf sF =
           emit (Sleep (sleepDuration conf))
             (processPosts w conf
                (handlePost w item conf
                   (processPosts w conf (emit (Http Feed (FeedURL conf) []) sF) earlier))
                later)"
  proof (intro impI, elim conjE)
    assume f: "fst (CheckRSSFeed w (FeedURL conf) sF) = Inr (earlier @ item # later)"
      and p: "Category conf = [] \<or> Contains (Base (Link item)) (Category conf)"
    have "processPost w conf (processPosts w conf (emit (Http Feed (FeedURL conf) []) sF) earlier) item
        = handlePost w item conf (processPosts w conf (emit (Http Feed (FeedURL conf) []) sF) earlier)"
      using p by (auto simp: processPost_def)
    then show "runIteration w conf sF =
           emit (Sleep (sleepDuration conf))
             (processPosts w conf
                (handlePost w item conf
                   (processPosts w conf (emit (Http Feed (FeedURL conf) []) sF) earlier))
                later)"
      by (simp add: fetched [OF f] processPosts_append)
  qed
  show ?thesis
    by (intro conjI) (fact n1 n2 n3 n4 n5 n6 n7 n8 n9 n10 n11 n12 n13 n14)+
qed

theorem C3_witness:
  "fst (HasPostChanged (withFeed worldBlueskyDown [post0, post1]) (Link post0) (Content post0)
          \<lparr>rows = Map.empty, trace = [Http Feed ''https://x.com/feed'' []]\<rparr>)
     = (False, False, None)
   \<and> TootPost (withFeed worldBlueskyDown [post0, post1]) (MastodonURL conf0)
         (MastodonAccessToken conf0) ''body - L''
         \<lparr>rows = Map.empty, trace = [Http Feed ''https://x.com/feed'' [], DbQuery ''L'']\<rparr>
       = (None, \<lparr>rows = Map.empty, trace = [Http Feed ''https://x.com/feed'' [], DbQuery ''L'',
            Http Mastodon ''https://m.example/api/v1/statuses'' ''status=body - L'']\<rparr>)
   \<and> BlueskyHandle conf0 \<noteq> [] \<and> BlueskyPassword conf0 \<noteq> []
   \<and> ThreadsUserID conf0 \<noteq> [] \<and> ThreadsToken conf0 \<noteq> []
   \<and> fst (bluesky_Post (withFeed worldBlueskyDown [post0, post1]) (BlueskyHandle conf0)
            (BlueskyPassword conf0) (BlueskyPDS conf0) ''body - L''
            (log InfoLevel (''Posting to Bluesky: '' @ Title post0)
               \<lparr>rows = [''L'' \<mapsto> (''626f6479'', ''2026-01-01T00:00:00Z'')],
                trace = [Http Feed ''https://x.com/feed'' [], DbQuery ''L'',
                  Http Mastodon ''https://m.example/api/v1/statuses'' ''status=body - L'',
                  DbExec ''L'' ''626f6479'' ''2026-01-01T00:00:00Z'']\<rparr>))
       = Some (Status ''failed to create session: status code '' 401)
   \<and> last (trace (postBluesky (withFeed worldBlueskyDown [post0, post1]) post0 conf0 ''body - L''
               \<lparr>rows = [''L'' \<mapsto> (''626f6479'', ''2026-01-01T00:00:00Z'')],
                trace = [Http Feed ''https://x.com/feed'' [], DbQuery ''L'',
                  Http Mastodon ''https://m.example/api/v1/statuses'' ''status=body - L'',
                  DbExec ''L'' ''626f6479'' ''2026-01-01T00:00:00Z'']\<rparr>))
       = Log ErrorLevel ''Failed to post to Bluesky: failed to create session: status code 401''
   \<and> trace (handlePost (withFeed worldBlueskyDown [post0, post1]) post0 conf0
           \<lparr>rows = Map.empty, trace = [Http Feed ''https://x.com/feed'' []]\<rparr>)
       = [Http Feed ''https://x.com/feed'' [],
          DbQuery ''L'',
          Http Mastodon ''https://m.example/api/v1/statuses'' ''status=body - L'',
          DbExec ''L'' ''626f6479'' ''2026-01-01T00:00:00Z'',
          Log InfoLevel ''Posting to Bluesky: Thoughts on X'',
          Http BlueskySession ''https://bsky.social/xrpc/com.atproto.server.createSession''
            ''me.bsky.social'',
          Log ErrorLevel ''Failed to post to Bluesky: failed to create session: status code 401'',
          Log InfoLevel ''Posting to Threads: Thoughts on X'',
          Http ThreadsContainer ''https://graph.threads.net/v1.0/42/threads'' ''body - L'',
          Http ThreadsPublish ''https://graph.threads.net/v1.0/42/threads_publish'' [],
          Log InfoLevel ''Successfully posted to Threads'']
   \<and> rows (handlePost (withFeed worldBlueskyDown [post0, post1]) post0 conf0
           \<lparr>rows = Map.empty, trace = [Http Feed ''https://x.com/feed'' []]\<rparr>)
       = [''L'' \<mapsto> (''626f6479'', ''2026-01-01T00:00:00Z'')]
   \<and> fst (CheckRSSFeed (withFeed worldBlueskyDown [post0, post1]) (FeedURL conf0) state0)
       = Inr [post0, post1]
   \<and> filter (\<lambda>e. kindOf e = KQuery)
         (trace (runIteration (withFeed worldBlueskyDown [post0, post1]) conf0 state0))
       = [DbQuery ''L'', DbQuery ''M'']
   \<and> trace (runIteration (withFeed worldBlueskyDown [post0, post1]) conf0 state0)
       = [Http Feed ''https://x.com/feed'' [],
          DbQuery ''L'',
          Http Mastodon ''https://m.example/api/v1/statuses'' ''status=body - L'',
          DbExec ''L'' ''626f6479'' ''2026-01-01T00:00:00Z'',
          Log InfoLevel ''Posting to Bluesky: Thoughts on X'',
          Http BlueskySession ''https://bsky.social/xrpc/com.atproto.server.createSession''
            ''me.bsky.social'',
          Log ErrorLevel ''Failed to post to Bluesky: failed to create session: status code 401'',
          Log InfoLevel ''Posting to Threads: Thoughts on X'',
          Http ThreadsContainer ''https://graph.threads.net/v1.0/42/threads'' ''body - L'',
          Http ThreadsPublish ''https://graph.threads.net/v1.0/42/threads_publish'' [],
          Log InfoLevel ''Successfully posted to Threads'',
          DbQuery ''M'',
          Http Mastodon ''https://m.example/api/v1/statuses'' ''status=New blog post: M'',
          DbExec ''M'' ''6d6f7265'' ''2026-01-01T00:00:00Z'',
          Log InfoLevel ''Posting to Bluesky: Second'',
          Http BlueskySession ''https://bsky.social/xrpc/com.atproto.server.createSession''
            ''me.bsky.social'',
          Log ErrorLevel ''Failed to post to Bluesky: failed to create session: status code 401'',
          Log InfoLevel ''Posting to Threads: Second'',
          Http ThreadsContainer ''https://graph.threads.net/v1.0/42/threads'' ''New blog post: M'',
          Http ThreadsPublish ''https://graph.threads.net/v1.0/42/threads_publish'' [],
          Log InfoLevel ''Successfully posted to Threads'',
          Sleep 3600000000000]"
proof -
  let ?W = "withFeed worldBlueskyDown [post0, post1]"
  let ?sA = "\<lparr>rows = Map.empty, trace = [Http Feed ''https://x.com/feed'' []]\<rparr>"
  let ?s2 = "\<lparr>rows = Map.empty, trace = [Http Feed ''https://x.com/feed'' [], DbQuery ''L'']\<rparr>"
  let ?s3 = "\<lparr>rows = Map.empty, trace = [Http Feed ''https://x.com/feed'' [], DbQuery ''L'',
            Http Mastodon ''https://m.example/api/v1/statuses'' ''status=body - L'']\<rparr>"
  let ?sB = "\<lparr>rows = [''L'' \<mapsto> (''626f6479'', ''2026-01-01T00:00:00Z'')],
                trace = [Http Feed ''https://x.com/feed'' [], DbQuery ''L'',
                  Http Mastodon ''https://m.example/api/v1/statuses'' ''status=body - L'',
                  DbExec ''L'' ''626f6479'' ''2026-01-01T00:00:00Z'']\<rparr>"
  have cls: "fst (HasPostChanged ?W (Link post0) (Content post0) ?sA) = (False, False, None)"
    by (simp add: concrete_defs model_defs)
  have nu: "False \<or> \<not> False" by simp
  have tx: "''body - L'' = (if False then ''Blog post has been updated: '' @ Link post0
                            else GetTootContent post0 (SkipPrefixCategories conf0))"
    by (simp add: concrete_defs model_defs)
  have toot: "TootPost ?W (MastodonURL conf0) (MastodonAccessToken conf0) ''body - L'' ?s2 = (None, ?s3)"
    by (simp add: concrete_defs model_defs)
  have ok: "TootPost ?W (MastodonURL conf0) (MastodonAccessToken conf0) ''body - L''
              (if False then log InfoLevel (''Post has been updated: '' @ Title post0)
                               (emit (DbQuery (Link post0)) ?sA)
               else emit (DbQuery (Link post0)) ?sA) = (None, ?s3)"
    using toot by (simp add: emit_def post0_def)
  have sB: "?sB = (case db_fault ?W (tick ?s3) of
               None \<Rightarrow> snd (StoreTootedPost ?W (Link post0) (Content post0) ?s3)
             | Some m \<Rightarrow> log ErrorLevel (''Storing post toot in database failed: '' @ m)
                  (snd (StoreTootedPost ?W (Link post0) (Content post0) ?s3)))"
    by (simp add: concrete_defs model_defs)
  have cfg: "BlueskyHandle conf0 \<noteq> []" "BlueskyPassword conf0 \<noteq> []"
      "ThreadsUserID conf0 \<noteq> []" "ThreadsToken conf0 \<noteq> []"
    by (simp_all add: conf0_def)
  have bsky: "fst (bluesky_Post ?W (BlueskyHandle conf0) (BlueskyPassword conf0)
            (BlueskyPDS conf0) ''body - L''
            (log InfoLevel (''Posting to Bluesky: '' @ Title post0) ?sB))
       = Some (Status ''failed to create session: status code '' 401)"
    by (simp add: concrete_defs model_defs)
  have feed: "fst (CheckRSSFeed ?W (FeedURL conf0) state0) = Inr [post0, post1]"
    by (simp add: concrete_defs CheckRSSFeed_def Let_def)
  note th = C3_secondaries_after_record [where w = ?W and post = post0 and conf = conf0
      and s = ?sA and ex = False and up = False and tootContent = "''body - L''" and ?s3.0 = ?s3
      and sB = ?sB
      and e = "Status ''failed to create session: status code '' 401"
      and e' = "Status ''failed to create session: status code '' 401"
      and sF = state0 and posts = "[post0, post1]" and earlier = "[]" and item = post0
      and later = "[post1]", OF cls nu refl tx ok sB refl]
  note t2 = th [THEN conjunct2]
  note t3 = t2 [THEN conjunct2]
  note t4 = t3 [THEN conjunct2]
  note t5 = t4 [THEN conjunct2]
  note t6 = t5 [THEN conjunct2]
  note t7 = t6 [THEN conjunct2]
  note t8 = t7 [THEN conjunct2]
  note t9 = t8 [THEN conjunct2]
  note t10 = t9 [THEN conjunct2]
  note t11 = t10 [THEN conjunct2]
  note t12 = t11 [THEN conjunct2]
  note t13 = t12 [THEN conjunct2]
  have rowsH: "rows (handlePost ?W post0 conf0 ?sA) = [''L'' \<mapsto> (''626f6479'', ''2026-01-01T00:00:00Z'')]"
    using t6 [THEN conjunct1] by simp
  have lastB: "last (trace (postBluesky ?W post0 conf0 ''body - L'' ?sB))
       = Log ErrorLevel ''Failed to post to Bluesky: failed to create session: status code 401''"
    using t8 [THEN conjunct1] cfg bsky by (simp add: itoa.simps hexdigit_def)
  have qs: "filter (\<lambda>e. kindOf e = KQuery) (trace (runIteration ?W conf0 state0))
       = [DbQuery ''L'', DbQuery ''M'']"
    using t13 [THEN conjunct1] feed by (simp add: state0_def conf0_def post0_def post1_def)
  have resH: "trace (handlePost ?W post0 conf0 ?sA)
       = [Http Feed ''https://x.com/feed'' [],
          DbQuery ''L'',
          Http Mastodon ''https://m.example/api/v1/statuses'' ''status=body - L'',
          DbExec ''L'' ''626f6479'' ''2026-01-01T00:00:00Z'',
          Log InfoLevel ''Posting to Bluesky: Thoughts on X'',
          Http BlueskySession ''https://bsky.social/xrpc/com.atproto.server.createSession''
            ''me.bsky.social'',
          Log ErrorLevel ''Failed to post to Bluesky: failed to create session: status code 401'',
          Log InfoLevel ''Posting to Threads: Thoughts on X'',
          Http ThreadsContainer ''https://graph.threads.net/v1.0/42/threads'' ''body - L'',
          Http ThreadsPublish ''https://graph.threads.net/v1.0/42/threads_publish'' [],
          Log InfoLevel ''Successfully posted to Threads'']"
    by (simp add: concrete_defs model_defs)
  have resR: "trace (runIteration ?W conf0 state0)
       = [Http Feed ''https://x.com/feed'' [],
          DbQuery ''L'',
          Http Mastodon ''https://m.example/api/v1/statuses'' ''status=body - L'',
          DbExec ''L'' ''626f6479'' ''2026-01-01T00:00:00Z'',
          Log InfoLevel ''Posting to Bluesky: Thoughts on X'',
          Http BlueskySession ''https://bsky.social/xrpc/com.atproto.server.createSession''
            ''me.bsky.social'',
          Log ErrorLevel ''Failed to post to Bluesky: failed to create session: status code 401'',
          Log InfoLevel ''Posting to Threads: Thoughts on X'',
          Http ThreadsContainer ''https://graph.threads.net/v1.0/42/threads'' ''body - L'',
          Http ThreadsPublish ''https://graph.threads.net/v1.0/42/threads_publish'' [],
          Log InfoLevel ''Successfully posted to Threads'',
          DbQuery ''M'',
          Http Mastodon ''https://m.example/api/v1/statuses'' ''status=New blog post: M'',
          DbExec ''M'' ''6d6f7265'' ''2026-01-01T00:00:00Z'',
          Log InfoLevel ''Posting to Bluesky: Second'',
          Http BlueskySession ''https://bsky.social/xrpc/com.atproto.server.createSession''
            ''me.bsky.social'',
          Log ErrorLevel ''Failed to post to Bluesky: failed to create session: status code 401'',
          Log InfoLevel ''Posting to Threads: Second'',
          Http ThreadsContainer ''https://graph.threads.net/v1.0/42/threads'' ''New blog post: M'',
          Http ThreadsPublish ''https://graph.threads.net/v1.0/42/threads_publish'' [],
          Log InfoLevel ''Successfully posted to Threads'',
          Sleep 3600000000000]"
    by (simp add: concrete_defs model_defs loop_defs)
  show ?thesis
    by (intro conjI) (fact cls toot cfg bsky lastB resH rowsH feed qs resR)+
qed

text \<open>
  Claim C4. The code does not do what the claim says: when the feed cannot be fetched,
  the pass logs the error and processes no item, but it does not sleep. Two passes of
  the loop with the feed down make two requests to the feed with no \<^verbatim>\<open>time.Sleep\<close>
  between them: \<^verbatim>\<open>continue\<close> jumps over the sleep at the end of the loop body.
\<close>

theorem C4_fetch_failure_skips_sleep:
  "runLoop worldFeedDown conf0 2 state0 =
     \<lparr>rows = Map.empty,
      trace = [Http Feed ''https://x.com/feed'' [],
               Log InfoLevel ''Error fetching RSS feed: HTTP request failed: connection refused'',
               Http Feed ''https://x.com/feed'' [],
               Log InfoLevel ''Error fetching RSS feed: HTTP request failed: connection refused'']\<rparr>
   \<and> KSleep \<notin> kindOf ` set (trace (runLoop worldFeedDown conf0 2 state0))
   \<and> trace (runLoop worldOK conf0 2 state0) =
        [Http Feed ''https://x.com/feed'' [], Sleep 3600000000000,
         Http Feed ''https://x.com/feed'' [], Sleep 3600000000000]"
proof -
  have a: "runLoop worldFeedDown conf0 2 state0 =
     \<lparr>rows = Map.empty,
      trace = [Http Feed ''https://x.com/feed'' [],
               Log InfoLevel ''Error fetching RSS feed: HTTP request failed: connection refused'',
               Http Feed ''https://x.com/feed'' [],
               Log InfoLevel ''Error fetching RSS feed: HTTP request failed: connection refused'']\<rparr>"
    by (simp add: numeral_2_eq_2 runIteration_def CheckRSSFeed_def concrete_defs emit_def log_def tick_def)
  have b: "trace (runLoop worldOK conf0 2 state0) =
        [Http Feed ''https://x.com/feed'' [], Sleep 3600000000000,
         Http Feed ''https://x.com/feed'' [], Sleep 3600000000000]"
    by (simp add: numeral_2_eq_2 runIteration_def CheckRSSFeed_def concrete_defs emit_def log_def tick_def
          sleepDuration_def Minute_def)
  show ?thesis by (simp add: a b)
qed

text \<open>
  Claim C5. The code does not do what the claim says: when the toot of a new item fails,
  \<^verbatim>\<open>handlePost\<close> writes one log line and returns; no request goes to Gotify, although
  Gotify is configured. \<^verbatim>\<open>gotify.logFailure\<close>, which logs the same line and sends the
  notification, is never called.
\<close>

theorem C5_no_alert_on_primary_failure:
  "GotifyURL conf0 = ''https://g.example'' \<and> GotifyToken conf0 = ''gtoken''
   \<and> trace (handlePost worldTootDown post0 conf0 state0) =
        [DbQuery ''L'',
         Http Mastodon ''https://m.example/api/v1/statuses'' ''status=body - L'',
         Log InfoLevel ''Failed to toot new post: unexpected HTTP status: 500'']
   \<and> KHttp Gotify \<notin> kindOf ` set (trace (handlePost worldTootDown post0 conf0 state0))
   \<and> trace (logFailure worldTootDown ''Failed to toot new post''
               (Status ''unexpected HTTP status: '' 500) conf0 state0) =
        [Log InfoLevel ''Failed to toot new post: unexpected HTTP status: 500'',
         Http Gotify ''https://g.example/message?token=gtoken''
           ''Failed to toot new post: unexpected HTTP status: 500'']"
proof -
  have "trace (logFailure worldTootDown ''Failed to toot new post''
               (Status ''unexpected HTTP status: '' 500) conf0 state0) =
        [Log InfoLevel ''Failed to toot new post: unexpected HTTP status: 500'',
         Http Gotify ''https://g.example/message?token=gtoken''
           ''Failed to toot new post: unexpected HTTP status: 500'']"
    by (simp add: logFailure_def sendGotifyNotification_def concrete_defs model_defs)
  moreover have "GotifyURL conf0 = ''https://g.example''" "GotifyToken conf0 = ''gtoken''"
    by (simp_all add: conf0_def)
  ultimately show ?thesis by (simp add: handlePost_tootDown)
qed




text \<open>
  Claim C7. The published text follows the three rules of the specification, in order:
  \<^verbatim>\<open>GetTootContent\<close> computes \<open>format_spec\<close> for an item that is not an update, and
  for an item classified as new or updated (with the Mastodon credentials set) the
  request \<^verbatim>\<open>handlePost\<close> sends to Mastodon carries \<open>format_spec\<close> of the item, where
  the item is an update exactly when a record exists; the request is made whenever
  \<^verbatim>\<open>http.NewRequest\<close> accepts the URL. The update announcement is
  \<^verbatim>\<open>"Blog post has been updated: {link}"\<close>. The item of the specification's example,
  titled \<^verbatim>\<open>"Thoughts on X"\<close> with the category \<^verbatim>\<open>"Thoughts"\<close>, gives \<^verbatim>\<open>"body - L"\<close>;
  the match is on bytes, so the title \<^verbatim>\<open>"thoughts on X"\<close> does not match.
\<close>

theorem C7_published_text:
  "GetTootContent post skipPrefixCategories = format_spec post skipPrefixCategories False
   \<and> (fst (HasPostChanged w (Link post) (Content post) s) = (ex, up, None)
        \<and> (up \<or> \<not> ex) \<and> MastodonURL conf \<noteq> [] \<and> MastodonAccessToken conf \<noteq> [] \<longrightarrow>
      (\<exists>es. trace (handlePost w post conf s) =
              trace s @ DbQuery (Link post)
                # (if ex then [Log InfoLevel (''Post has been updated: '' @ Title post)] else [])
                @ (if new_request_error w (MastodonURL conf @ ''/api/v1/statuses'') = None
                   then [Http Mastodon (MastodonURL conf @ ''/api/v1/statuses'')
                           (''status='' @ format_spec post (SkipPrefixCategories conf) ex)]
                   else [])
                @ es))
   \<and> format_spec \<lparr>Title = ''Thoughts on X'', Link = ''L'', Content = ''body''\<rparr> [''Thoughts''] False
        = ''body - L''
   \<and> GetTootContent \<lparr>Title = ''Thoughts on X'', Link = ''L'', Content = ''body''\<rparr> [''Thoughts'']
        = ''body - L''
   \<and> GetTootContent \<lparr>Title = ''thoughts on X'', Link = ''L'', Content = ''body''\<rparr> [''Thoughts'']
        = ''New blog post: L''"
proof -
  have b: "\<exists>es. trace (handlePost w post conf s) =
              trace s @ DbQuery (Link post)
                # (if ex then [Log InfoLevel (''Post has been updated: '' @ Title post)] else [])
                @ (if new_request_error w (MastodonURL conf @ ''/api/v1/statuses'') = None
                   then [Http Mastodon (MastodonURL conf @ ''/api/v1/statuses'')
                           (''status='' @ format_spec post (SkipPrefixCategories conf) ex)]
                   else [])
                @ es"
    if c: "fst (HasPostChanged w (Link post) (Content post) s) = (ex, up, None)"
      and nu: "up \<or> \<not> ex" and cr: "MastodonURL conf \<noteq> []" "MastodonAccessToken conf \<noteq> []"
  proof -
    let ?s1 = "emit (DbQuery (Link post)) s"
    let ?s2 = "if ex then log InfoLevel (''Post has been updated: '' @ Title post) ?s1 else ?s1"
    let ?txt = "format_spec post (SkipPrefixCategories conf) ex"
    have hp: "HasPostChanged w (Link post) (Content post) s = ((ex, up, None), ?s1)"
      using c by (metis HasPostChanged_snd prod.collapse)
    have h: "handlePost w post conf s = handlePost_toot w post conf ?txt ex ?s2"
      using hp nu by (auto simp: handlePost_def GetTootContent_format format_spec_def)
    let ?r = "TootPost w (MastodonURL conf) (MastodonAccessToken conf) ?txt ?s2"
    let ?m = "if new_request_error w (MastodonURL conf @ ''/api/v1/statuses'') = None
              then [Http Mastodon (MastodonURL conf @ ''/api/v1/statuses'') (''status='' @ ?txt)]
              else []"
    have tr: "trace (snd ?r) = trace ?s2 @ ?m"
      using cr by (simp add: TootPost_trace)
    have "\<exists>es. trace (handlePost_toot w post conf ?txt ex ?s2) = trace (snd ?r) @ es"
    proof (cases "fst ?r")
      case (Some e)
      then show ?thesis by (cases ?r) (auto simp: handlePost_toot_def)
    next
      case None
      then have "handlePost_toot w post conf ?txt ex ?s2 = handlePost_store w post conf ?txt (snd ?r)"
        by (cases ?r) (auto simp: handlePost_toot_def)
      then show ?thesis using handlePost_store_trace [of w post conf ?txt "snd ?r"] by auto
    qed
    then obtain es where "trace (handlePost_toot w post conf ?txt ex ?s2) = trace (snd ?r) @ es" ..
    then have "trace (handlePost w post conf s) = trace ?s2 @ ?m @ es"
      using h tr by simp
    then show ?thesis by auto
  qed
  have "format_spec \<lparr>Title = ''Thoughts on X'', Link = ''L'', Content = ''body''\<rparr> [''Thoughts''] False
        = ''body - L''"
    by (simp add: format_spec_def HasPrefix_def)
  moreover have "GetTootContent \<lparr>Title = ''Thoughts on X'', Link = ''L'', Content = ''body''\<rparr> [''Thoughts'']
        = ''body - L''"
    by (simp add: HasPrefix_def)
  moreover have "GetTootContent \<lparr>Title = ''thoughts on X'', Link = ''L'', Content = ''body''\<rparr> [''Thoughts'']
        = ''New blog post: L''"
    by (simp add: HasPrefix_def)
  ultimately show ?thesis using b GetTootContent_format by blast
qed

theorem C7_witness:
  "fst (HasPostChanged worldOK (Link post0) (Content post0) state0) = (False, False, None)
   \<and> MastodonURL conf0 \<noteq> [] \<and> MastodonAccessToken conf0 \<noteq> []
   \<and> new_request_error worldOK (MastodonURL conf0 @ ''/api/v1/statuses'') = None
   \<and> take 2 (trace (handlePost worldOK post0 conf0 state0))
        = [DbQuery ''L'', Http Mastodon ''https://m.example/api/v1/statuses'' ''status=body - L'']"
proof -
  have c: "fst (HasPostChanged worldOK (Link post0) (Content post0) state0) = (False, False, None)"
    by (simp add: HasPostChanged_fst worldOK_def state0_def tick_def)
  have cr: "MastodonURL conf0 \<noteq> []" "MastodonAccessToken conf0 \<noteq> []"
    by (simp_all add: conf0_def)
  have f: "format_spec post0 (SkipPrefixCategories conf0) False = ''body - L''"
    by (simp add: format_spec_def post0_def conf0_def HasPrefix_def)
  have nr: "new_request_error worldOK (MastodonURL conf0 @ ''/api/v1/statuses'') = None"
    by (simp add: worldOK_def)
  from C7_published_text [of post0 "SkipPrefixCategories conf0" worldOK state0 False False conf0] c cr
  obtain es where "trace (handlePost worldOK post0 conf0 state0) =
              trace state0 @ DbQuery (Link post0)
                # (if False then [Log InfoLevel (''Post has been updated: '' @ Title post0)] else [])
                @ (if new_request_error worldOK (MastodonURL conf0 @ ''/api/v1/statuses'') = None
                   then [Http Mastodon (MastodonURL conf0 @ ''/api/v1/statuses'')
                           (''status='' @ format_spec post0 (SkipPrefixCategories conf0) False)]
                   else [])
                @ es"
    by auto
  then have "take 2 (trace (handlePost worldOK post0 conf0 state0))
        = [DbQuery ''L'', Http Mastodon ''https://m.example/api/v1/statuses'' ''status=body - L'']"
    by (simp add: f nr) (simp add: state0_def post0_def conf0_def)
  with c cr nr show ?thesis by simp
qed

text \<open>
  Claim C8. With a category configured, every item of a fetched feed goes through the
  filter in the pass of the loop: when the loop reaches an item whose \<^verbatim>\<open>path.Base\<close>
  of the link contains the category, the item is handed to \<^verbatim>\<open>handlePost\<close>, which
  starts with the lookup in the table, and the rest of the feed is processed from the
  state \<^verbatim>\<open>handlePost\<close> leaves; when the link's last segment does not contain the
  category, the only effect of the item is one debug log line, and the rest of the feed
  is processed from there. So the lookups of a pass are those of the kept items, in the
  order of the feed, and a pass in which every item is dropped leaves the rows as they
  are and consists of the fetch, one debug log line for each item, and the sleep.
  \<^verbatim>\<open>Run\<close> makes these passes with the checked configuration, whose category is the
  configured one. For the loop body alone: a kept item is handed to \<^verbatim>\<open>handlePost\<close>; a
  dropped item leaves the rows as they are and adds to the trace one debug log line and
  nothing else (no lookup, no request, no upsert). \<^verbatim>\<open>path.Base\<close> of a link that ends
  in a slash and a segment without slashes is that segment. The links of the
  specification's example: \<^verbatim>\<open>"tech-post"\<close> contains \<^verbatim>\<open>"tech"\<close>, \<^verbatim>\<open>"other-post"\<close> does
  not.
\<close>

theorem C8_category_filter:
  "(Category conf \<noteq> [] \<and> Contains (Base (Link post)) (Category conf) \<longrightarrow>
      processPost w conf s post = handlePost w post conf s
      \<and> (\<exists>es. trace (processPost w conf s post) = trace s @ DbQuery (Link post) # es))
   \<and> (Category conf \<noteq> [] \<and> \<not> Contains (Base (Link post)) (Category conf) \<longrightarrow>
      rows (processPost w conf s post) = rows s
      \<and> trace (processPost w conf s post) = trace s @ [Log DebugLevel (skipMessage post conf)])
   \<and> (CHR ''/'' \<notin> set seg \<and> seg \<noteq> [] \<longrightarrow> Base (pre @ ''/'' @ seg) = seg)
   \<and> Base ''https://x.com/a/tech-post'' = ''tech-post''
   \<and> Contains ''tech-post'' ''tech''
   \<and> Base ''https://x.com/a/other-post'' = ''other-post''
   \<and> \<not> Contains ''other-post'' ''tech''
   \<and> (fst (CheckRSSFeed w (FeedURL conf) sF) = Inr (earlier @ item # later)
        \<and> Category conf \<noteq> [] \<and> Contains (Base (Link item)) (Category conf) \<longrightarrow>
      runIteration w conf sF =
        emit (Sleep (sleepDuration conf))
          (processPosts w conf
             (handlePost w item conf
                (processPosts w conf (emit (Http Feed (FeedURL conf) []) sF) earlier))
             later)
      \<and> (\<exists>es. trace (handlePost w item conf
                       (processPosts w conf (emit (Http Feed (FeedURL conf) []) sF) earlier)) =
                 trace (processPosts w conf (emit (Http Feed (FeedURL conf) []) sF) earlier)
                 @ DbQuery (Link item) # es))
   \<and> (fst (CheckRSSFeed w (FeedURL conf) sF) = Inr (earlier @ item # later)
        \<and> Category conf \<noteq> [] \<and> \<not> Contains (Base (Link item)) (Category conf) \<longrightarrow>
      runIteration w conf sF =
        emit (Sleep (sleepDuration conf))
          (processPosts w conf
             (log DebugLevel (skipMessage item conf)
                (processPosts w conf (emit (Http Feed (FeedURL conf) []) sF) earlier))
             later))
   \<and> (fst (CheckRSSFeed w (FeedURL conf) sF) = Inr posts \<and> Category conf \<noteq> [] \<longrightarrow>
      filter (\<lambda>e. kindOf e = KQuery) (trace (runIteration w conf sF)) =
        filter (\<lambda>e. kindOf e = KQuery) (trace sF)
        @ map DbQuery (map Link (filter (\<lambda>p. Contains (Base (Link p)) (Category conf)) posts)))
   \<and> (fst (CheckRSSFeed w (FeedURL conf) sF) = Inr posts \<and> Category conf \<noteq> []
        \<and> (\<forall>p\<in>set posts. \<not> Contains (Base (Link p)) (Category conf)) \<longrightarrow>
      rows (runIteration w conf sF) = rows sF
      \<and> trace (runIteration w conf sF) =
          trace sF @ Http Feed (FeedURL conf) []
            # map (\<lambda>p. Log DebugLevel (skipMessage p conf)) posts
            @ [Sleep (sleepDuration conf)])
   \<and> (FeedURL conf \<noteq> [] \<and> db_open_fault w (tick (snd (checkInterval conf s0))) = None
        \<and> db_fault w (Suc (tick (snd (checkInterval conf s0)))) = None \<longrightarrow>
      Run w (Suc n) conf s0 =
        runLoop w (fst (checkInterval conf s0)) n
          (runIteration w (fst (checkInterval conf s0))
             (emit DbCreateTable (emit DbOpen (snd (checkInterval conf s0)))))
      \<and> Category (fst (checkInterval conf s0)) = Category conf
      \<and> FeedURL (fst (checkInterval conf s0)) = FeedURL conf)"
proof -
  let ?sp = "processPosts w conf (emit (Http Feed (FeedURL conf) []) sF) earlier"
  have a: "Category conf \<noteq> [] \<and> Contains (Base (Link post)) (Category conf) \<longrightarrow>
      processPost w conf s post = handlePost w post conf s
      \<and> (\<exists>es. trace (processPost w conf s post) = trace s @ DbQuery (Link post) # es)"
    using handlePost_trace [of w post conf s] by (auto simp: processPost_def)
  have b: "Category conf \<noteq> [] \<and> \<not> Contains (Base (Link post)) (Category conf) \<longrightarrow>
      rows (processPost w conf s post) = rows s
      \<and> trace (processPost w conf s post) = trace s @ [Log DebugLevel (skipMessage post conf)]"
    by (simp add: processPost_def)
  have c: "CHR ''/'' \<notin> set seg \<and> seg \<noteq> [] \<longrightarrow> Base (pre @ ''/'' @ seg) = seg"
    using Base_last_segment [of seg pre] by blast
  have d1: "Base ''https://x.com/a/tech-post'' = ''tech-post''"
    by (simp add: Base_def)
  have d2: "Base ''https://x.com/a/other-post'' = ''other-post''"
    by (simp add: Base_def)
  have e1: "Contains ''tech-post'' ''tech''"
    by (simp add: HasPrefix_def)
  have e2: "\<not> Contains ''other-post'' ''tech''"
    by (simp add: HasPrefix_def)
  have fetched: "runIteration w conf sF =
        emit (Sleep (sleepDuration conf))
          (processPosts w conf (emit (Http Feed (FeedURL conf) []) sF) ps)"
    if "fst (CheckRSSFeed w (FeedURL conf) sF) = Inr ps" for ps
  proof -
    from that have "CheckRSSFeed w (FeedURL conf) sF = (Inr ps, emit (Http Feed (FeedURL conf) []) sF)"
      by (metis CheckRSSFeed_snd prod.collapse)
    then show ?thesis by (simp add: runIteration_def)
  qed
  have f: "fst (CheckRSSFeed w (FeedURL conf) sF) = Inr (earlier @ item # later)
        \<and> Category conf \<noteq> [] \<and> Contains (Base (Link item)) (Category conf) \<longrightarrow>
      runIteration w conf sF =
        emit (Sleep (sleepDuration conf))
          (processPosts w conf (handlePost w item conf ?sp) later)
      \<and> (\<exists>es. trace (handlePost w item conf ?sp) = trace ?sp @ DbQuery (Link item) # es)"
  proof (intro impI, elim conjE)
    assume fe: "fst (CheckRSSFeed w (FeedURL conf) sF) = Inr (earlier @ item # later)"
      and ca: "Category conf \<noteq> []" and co: "Contains (Base (Link item)) (Category conf)"
    have "processPost w conf ?sp item = handlePost w item conf ?sp"
      using ca co by (simp add: processPost_def)
    then have "runIteration w conf sF =
        emit (Sleep (sleepDuration conf)) (processPosts w conf (handlePost w item conf ?sp) later)"
      by (simp add: fetched [OF fe] processPosts_append)
    moreover have "\<exists>es. trace (handlePost w item conf ?sp) = trace ?sp @ DbQuery (Link item) # es"
      using handlePost_trace [of w item conf ?sp] by blast
    ultimately show "runIteration w conf sF =
        emit (Sleep (sleepDuration conf))
          (processPosts w conf (handlePost w item conf ?sp) later)
      \<and> (\<exists>es. trace (handlePost w item conf ?sp) = trace ?sp @ DbQuery (Link item) # es)"
      by blast
  qed
  have g: "fst (CheckRSSFeed w (FeedURL conf) sF) = Inr (earlier @ item # later)
        \<and> Category conf \<noteq> [] \<and> \<not> Contains (Base (Link item)) (Category conf) \<longrightarrow>
      runIteration w conf sF =
        emit (Sleep (sleepDuration conf))
          (processPosts w conf (log DebugLevel (skipMessage item conf) ?sp) later)"
  proof (intro impI, elim conjE)
    assume fe: "fst (CheckRSSFeed w (FeedURL conf) sF) = Inr (earlier @ item # later)"
      and ca: "Category conf \<noteq> []" and co: "\<not> Contains (Base (Link item)) (Category conf)"
    have "processPost w conf ?sp item = log DebugLevel (skipMessage item conf) ?sp"
      using ca co by (simp add: processPost_def)
    then show "runIteration w conf sF =
        emit (Sleep (sleepDuration conf))
          (processPosts w conf (log DebugLevel (skipMessage item conf) ?sp) later)"
      by (simp add: fetched [OF fe] processPosts_append)
  qed
  have h: "fst (CheckRSSFeed w (FeedURL conf) sF) = Inr posts \<and> Category conf \<noteq> [] \<longrightarrow>
      filter (\<lambda>e. kindOf e = KQuery) (trace (runIteration w conf sF)) =
        filter (\<lambda>e. kindOf e = KQuery) (trace sF)
        @ map DbQuery (map Link (filter (\<lambda>p. Contains (Base (Link p)) (Category conf)) posts))"
  proof (intro impI, elim conjE)
    assume fe: "fst (CheckRSSFeed w (FeedURL conf) sF) = Inr posts" and ca: "Category conf \<noteq> []"
    show "filter (\<lambda>e. kindOf e = KQuery) (trace (runIteration w conf sF)) =
        filter (\<lambda>e. kindOf e = KQuery) (trace sF)
        @ map DbQuery (map Link (filter (\<lambda>p. Contains (Base (Link p)) (Category conf)) posts))"
      using ca by (simp add: fetched [OF fe] processPosts_queries)
  qed
  have i: "fst (CheckRSSFeed w (FeedURL conf) sF) = Inr posts \<and> Category conf \<noteq> []
        \<and> (\<forall>p\<in>set posts. \<not> Contains (Base (Link p)) (Category conf)) \<longrightarrow>
      rows (runIteration w conf sF) = rows sF
      \<and> trace (runIteration w conf sF) =
          trace sF @ Http Feed (FeedURL conf) []
            # map (\<lambda>p. Log DebugLevel (skipMessage p conf)) posts
            @ [Sleep (sleepDuration conf)]"
  proof (intro impI, elim conjE)
    assume fe: "fst (CheckRSSFeed w (FeedURL conf) sF) = Inr posts" and ca: "Category conf \<noteq> []"
      and al: "\<forall>p\<in>set posts. \<not> Contains (Base (Link p)) (Category conf)"
    show "rows (runIteration w conf sF) = rows sF
      \<and> trace (runIteration w conf sF) =
          trace sF @ Http Feed (FeedURL conf) []
            # map (\<lambda>p. Log DebugLevel (skipMessage p conf)) posts
            @ [Sleep (sleepDuration conf)]"
      using processPosts_dropped [OF ca al, of w "emit (Http Feed (FeedURL conf) []) sF"]
      by (simp add: fetched [OF fe])
  qed
  have j: "FeedURL conf \<noteq> [] \<and> db_open_fault w (tick (snd (checkInterval conf s0))) = None
        \<and> db_fault w (Suc (tick (snd (checkInterval conf s0)))) = None \<longrightarrow>
      Run w (Suc n) conf s0 =
        runLoop w (fst (checkInterval conf s0)) n
          (runIteration w (fst (checkInterval conf s0))
             (emit DbCreateTable (emit DbOpen (snd (checkInterval conf s0)))))
      \<and> Category (fst (checkInterval conf s0)) = Category conf
      \<and> FeedURL (fst (checkInterval conf s0)) = FeedURL conf"
    by (simp add: Run_def InitDB_def Let_def checkInterval_def split: prod.splits)
  show ?thesis
    by (intro conjI) (fact a b c d1 e1 d2 e2 f g h i j)+
qed

theorem C8_witness:
  "Category confTech = ''tech''
   \<and> Contains (Base (Link postTech)) (Category confTech)
   \<and> \<not> Contains (Base (Link postOther)) (Category confTech)
   \<and> skipMessage postOther confTech =
       ''Skipping post O: category filter '' @ [CHR 0x27] @ ''tech'' @ [CHR 0x27]
         @ '' not in URL segment '' @ [CHR 0x27] @ ''other-post'' @ [CHR 0x27]
   \<and> processPost worldOK confTech state0 postTech = handlePost worldOK postTech confTech state0
   \<and> rows (processPost worldOK confTech state0 postOther) = rows state0
   \<and> trace (processPost worldOK confTech state0 postOther)
       = [Log DebugLevel (skipMessage postOther confTech)]
   \<and> Base (''https://x.com/a'' @ ''/'' @ ''tech-post'') = ''tech-post''
   \<and> fst (CheckRSSFeed (withFeed worldOK [postTech, postOther]) (FeedURL confTech)
          \<lparr>rows = Map.empty, trace = [DbOpen, DbCreateTable]\<rparr>) = Inr [postTech, postOther]
   \<and> filter (\<lambda>e. kindOf e = KQuery)
         (trace (runIteration (withFeed worldOK [postTech, postOther]) confTech
                   \<lparr>rows = Map.empty, trace = [DbOpen, DbCreateTable]\<rparr>))
       = [DbQuery ''https://x.com/a/tech-post'']
   \<and> FeedURL confTech \<noteq> []
   \<and> trace (Run (withFeed worldOK [postTech, postOther]) 1 confTech state0)
       = [DbOpen, DbCreateTable,
          Http Feed ''https://x.com/feed'' [],
          DbQuery ''https://x.com/a/tech-post'',
          Http Mastodon ''https://m.example/api/v1/statuses''
            ''status=New blog post: https://x.com/a/tech-post'',
          DbExec ''https://x.com/a/tech-post'' ''63'' ''2026-01-01T00:00:00Z'',
          Log DebugLevel (skipMessage postOther confTech),
          Sleep 3600000000000]
   \<and> rows (Run (withFeed worldOK [postTech, postOther]) 1 confTech state0)
       = [''https://x.com/a/tech-post'' \<mapsto> (''63'', ''2026-01-01T00:00:00Z'')]
   \<and> fst (CheckRSSFeed (withFeed worldOK [postOther]) (FeedURL confTech) state0) = Inr [postOther]
   \<and> rows (runIteration (withFeed worldOK [postOther]) confTech state0) = rows state0
   \<and> trace (runIteration (withFeed worldOK [postOther]) confTech state0)
       = [Http Feed ''https://x.com/feed'' [],
          Log DebugLevel (skipMessage postOther confTech),
          Sleep 3600000000000]"
proof -
  let ?W = "withFeed worldOK [postTech, postOther]"
  let ?W1 = "withFeed worldOK [postOther]"
  let ?sI = "\<lparr>rows = Map.empty, trace = [DbOpen, DbCreateTable]\<rparr>"
  have h1: "Category confTech = ''tech''" "Category confTech \<noteq> []" "FeedURL confTech \<noteq> []"
    by (simp_all add: confTech_def conf0_def)
  have h2: "Contains (Base (Link postTech)) (Category confTech)"
    by (simp add: confTech_def postTech_def Base_def HasPrefix_def)
  have h3: "\<not> Contains (Base (Link postOther)) (Category confTech)"
    by (simp add: confTech_def postOther_def Base_def HasPrefix_def)
  have h4: "CHR ''/'' \<notin> set ''tech-post''" "''tech-post'' \<noteq> []" by simp_all
  have sm: "skipMessage postOther confTech =
       ''Skipping post O: category filter '' @ [CHR 0x27] @ ''tech'' @ [CHR 0x27]
         @ '' not in URL segment '' @ [CHR 0x27] @ ''other-post'' @ [CHR 0x27]"
    by (simp add: skipMessage_def Base_def confTech_def postOther_def)
  have feed: "fst (CheckRSSFeed ?W (FeedURL confTech) ?sI) = Inr [postTech, postOther]"
    by (simp add: concrete_defs CheckRSSFeed_def Let_def)
  have feed1: "fst (CheckRSSFeed ?W1 (FeedURL confTech) state0) = Inr [postOther]"
    by (simp add: concrete_defs CheckRSSFeed_def Let_def)
  have al: "\<forall>p\<in>set [postOther]. \<not> Contains (Base (Link p)) (Category confTech)"
    using h3 by simp
  note th = C8_category_filter [where conf = confTech and w = ?W and s = state0
      and seg = "''tech-post''" and pre = "''https://x.com/a''" and sF = ?sI
      and posts = "[postTech, postOther]" and earlier = "[]" and later = "[postOther]"
      and ?s0.0 = state0 and n = 0]
  note th1 = C8_category_filter [where conf = confTech and w = worldOK and s = state0
      and seg = "''tech-post''" and pre = "''https://x.com/a''"]
  note th2 = C8_category_filter [where conf = confTech and w = ?W1 and sF = state0
      and posts = "[postOther]"]
  have a: "processPost worldOK confTech state0 postTech = handlePost worldOK postTech confTech state0"
    using th1 [where post = postTech, THEN conjunct1] h1(2) h2 by blast
  have b: "rows (processPost worldOK confTech state0 postOther) = rows state0"
      "trace (processPost worldOK confTech state0 postOther) = [Log DebugLevel (skipMessage postOther confTech)]"
    using th1 [where post = postOther, THEN conjunct2, THEN conjunct1] h1(2) h3
    by (simp_all add: state0_def)
  have c: "Base (''https://x.com/a'' @ ''/'' @ ''tech-post'') = ''tech-post''"
    using th1 [THEN conjunct2, THEN conjunct2, THEN conjunct1] h4 by blast
  have q: "filter (\<lambda>e. kindOf e = KQuery) (trace (runIteration ?W confTech ?sI))
       = [DbQuery ''https://x.com/a/tech-post'']"
  proof -
    have "filter (\<lambda>e. kindOf e = KQuery) (trace (runIteration ?W confTech ?sI)) =
        filter (\<lambda>e. kindOf e = KQuery) (trace ?sI)
        @ map DbQuery (map Link (filter (\<lambda>p. Contains (Base (Link p)) (Category confTech))
            [postTech, postOther]))"
      using th feed h1(2) by blast
    then show ?thesis using h2 h3 by (simp add: postTech_def)
  qed
  have d: "rows (runIteration ?W1 confTech state0) = rows state0
      \<and> trace (runIteration ?W1 confTech state0) =
          trace state0 @ Http Feed (FeedURL confTech) []
            # map (\<lambda>p. Log DebugLevel (skipMessage p confTech)) [postOther]
            @ [Sleep (sleepDuration confTech)]"
    using th2 feed1 h1(2) al by blast
  then have d': "rows (runIteration ?W1 confTech state0) = rows state0"
      "trace (runIteration ?W1 confTech state0)
       = [Http Feed ''https://x.com/feed'' [],
          Log DebugLevel (skipMessage postOther confTech),
          Sleep 3600000000000]"
    by (simp_all add: state0_def confTech_def conf0_def sleepDuration_def Minute_def)
  have run: "Run ?W 1 confTech state0
       = \<lparr>rows = [''https://x.com/a/tech-post'' \<mapsto> (''63'', ''2026-01-01T00:00:00Z'')],
          trace = [DbOpen, DbCreateTable,
          Http Feed ''https://x.com/feed'' [],
          DbQuery ''https://x.com/a/tech-post'',
          Http Mastodon ''https://m.example/api/v1/statuses''
            ''status=New blog post: https://x.com/a/tech-post'',
          DbExec ''https://x.com/a/tech-post'' ''63'' ''2026-01-01T00:00:00Z'',
          Log DebugLevel (skipMessage postOther confTech),
          Sleep 3600000000000]\<rparr>"
    unfolding sm by (simp add: concrete_defs model_defs loop_defs)
  have r1: "trace (Run ?W 1 confTech state0)
       = [DbOpen, DbCreateTable,
          Http Feed ''https://x.com/feed'' [],
          DbQuery ''https://x.com/a/tech-post'',
          Http Mastodon ''https://m.example/api/v1/statuses''
            ''status=New blog post: https://x.com/a/tech-post'',
          DbExec ''https://x.com/a/tech-post'' ''63'' ''2026-01-01T00:00:00Z'',
          Log DebugLevel (skipMessage postOther confTech),
          Sleep 3600000000000]"
    using run by simp
  have r2: "rows (Run ?W 1 confTech state0)
       = [''https://x.com/a/tech-post'' \<mapsto> (''63'', ''2026-01-01T00:00:00Z'')]"
    using run by simp
  show ?thesis
    by (intro conjI) (fact h1 h2 h3 sm a b c feed q r1 r2 feed1 d')+
qed

text \<open>
  Claim C9. The code corrects the interval but does not keep the loop from running with
  no delay: with the interval 0 the configuration that enters the loop has the interval
  60 and a sleep of 60 minutes, and yet, with the feed down, three passes of \<^verbatim>\<open>Run\<close>
  make three requests to the feed with no \<^verbatim>\<open>time.Sleep\<close> at all. After a failed fetch
  \<^verbatim>\<open>continue\<close> jumps over the sleep, whatever the interval is (the defect of claim C4).
  With the feed up, the same configuration sleeps 60 minutes after the pass.
\<close>

theorem C9_busy_loop_after_correction:
  "sint (Interval (conf0\<lparr>Interval := 0\<rparr>)) = 0
   \<and> Interval (fst (checkInterval (conf0\<lparr>Interval := 0\<rparr>) state0)) = 60
   \<and> sint (sleepDuration (fst (checkInterval (conf0\<lparr>Interval := 0\<rparr>) state0))) = 3600000000000
   \<and> trace (Run worldFeedDown 3 (conf0\<lparr>Interval := 0\<rparr>) state0) =
        [Log ErrorLevel ''Interval must be a positive integer'', DbOpen, DbCreateTable,
         Http Feed ''https://x.com/feed'' [],
         Log InfoLevel ''Error fetching RSS feed: HTTP request failed: connection refused'',
         Http Feed ''https://x.com/feed'' [],
         Log InfoLevel ''Error fetching RSS feed: HTTP request failed: connection refused'',
         Http Feed ''https://x.com/feed'' [],
         Log InfoLevel ''Error fetching RSS feed: HTTP request failed: connection refused'']
   \<and> KSleep \<notin> kindOf ` set (trace (Run worldFeedDown 3 (conf0\<lparr>Interval := 0\<rparr>) state0))
   \<and> trace (Run worldOK 1 (conf0\<lparr>Interval := 0\<rparr>) state0) =
        [Log ErrorLevel ''Interval must be a positive integer'', DbOpen, DbCreateTable,
         Http Feed ''https://x.com/feed'' [], Sleep 3600000000000]"
proof -
  have a: "trace (Run worldFeedDown 3 (conf0\<lparr>Interval := 0\<rparr>) state0) =
        [Log ErrorLevel ''Interval must be a positive integer'', DbOpen, DbCreateTable,
         Http Feed ''https://x.com/feed'' [],
         Log InfoLevel ''Error fetching RSS feed: HTTP request failed: connection refused'',
         Http Feed ''https://x.com/feed'' [],
         Log InfoLevel ''Error fetching RSS feed: HTTP request failed: connection refused'',
         Http Feed ''https://x.com/feed'' [],
         Log InfoLevel ''Error fetching RSS feed: HTTP request failed: connection refused'']"
    by (simp add: numeral_3_eq_3 concrete_defs loop_defs emit_def log_def tick_def Let_def)
  have b: "trace (Run worldOK 1 (conf0\<lparr>Interval := 0\<rparr>) state0) =
        [Log ErrorLevel ''Interval must be a positive integer'', DbOpen, DbCreateTable,
         Http Feed ''https://x.com/feed'' [], Sleep 3600000000000]"
    by (simp add: concrete_defs loop_defs emit_def log_def tick_def Let_def)
  have c: "Interval (fst (checkInterval (conf0\<lparr>Interval := 0\<rparr>) state0)) = 60"
      "sint (sleepDuration (fst (checkInterval (conf0\<lparr>Interval := 0\<rparr>) state0))) = 3600000000000"
    by (simp_all add: checkInterval_def sleepDuration_def Minute_def)
  have d: "sint (Interval (conf0\<lparr>Interval := 0\<rparr>)) = 0" by simp
  have e: "KSleep \<notin> kindOf ` set (trace (Run worldFeedDown 3 (conf0\<lparr>Interval := 0\<rparr>) state0))"
    unfolding a by simp
  show ?thesis
    by (intro conjI) (fact a b c d e)+
qed

text \<open>
  Claim C10. When the list of skip-prefix categories contains the empty string, every
  item that is not an update is formatted as \<^verbatim>\<open>"{content} - {link}"\<close>: the empty
  string is a prefix of every title, so the loop of \<^verbatim>\<open>GetTootContent\<close> returns before
  it can reach \<^verbatim>\<open>"New blog post: {link}"\<close>.
\<close>

theorem C10_empty_category_always_matches:
  "[] \<in> set skipPrefixCategories \<Longrightarrow>
     GetTootContent post skipPrefixCategories = Content post @ '' - '' @ Link post"
  by (induction skipPrefixCategories) (auto simp: HasPrefix_def)

theorem C10_witness:
  "[] \<in> set [''Thoughts'', []] \<and>
   GetTootContent \<lparr>Title = ''New Thing'', Link = ''L'', Content = ''body''\<rparr> [''Thoughts'', []] = ''body - L''"
  using C10_empty_category_always_matches
    [of "[''Thoughts'', []]" "\<lparr>Title = ''New Thing'', Link = ''L'', Content = ''body''\<rparr>"]
  by simp

end
